theory Spec2Isabelle
  imports Complex_Main "HOL-Library.Log_Nat" "HOL-Library.AList"
    "HOL-Library.Word" "HOL-Library.List_Lexorder"
begin

section \<open>JavaScript numbers\<close>

text \<open>
  The server runs on Node: every number is an IEEE 754 binary64 value. A finite value is
  held as the rational it denotes; \<open>fl\<close> rounds an exact result to the nearest double
  (ties to even, gradual underflow, overflow to an infinity once the rounded magnitude
  reaches \<open>2\<^sup>1\<^sup>0\<^sup>2\<^sup>4\<close>, that is once its exponent does). The sign of zero is not
  recorded: the dashboard only adds to, multiplies into and divides accumulators that start
  at \<open>+0\<close>, and \<open>toFixed\<close> prints both zeros alike, so no output depends on it.
\<close>

datatype jsnum = Num rat | PInf | NInf | NaN

definition pow2 :: "int \<Rightarrow> rat" where
  "pow2 e = (if 0 \<le> e then 2 ^ nat e else 1 / 2 ^ nat (- e))"

definition ilog2 :: "rat \<Rightarrow> int" where
  \<comment> \<open>\<open>\<lfloor>log\<^sub>2 q\<rfloor>\<close> for \<open>q > 0\<close>, from the bit lengths of numerator and denominator\<close>
  "ilog2 q = (case quotient_of q of (a, b) \<Rightarrow>
     let e = bitlen a - bitlen b in if pow2 e \<le> q then e else e - 1)"

definition round_even :: "rat \<Rightarrow> int" where
  "round_even q = (let f = \<lfloor>q\<rfloor>; d = q - of_int f in
     if d < 1 / 2 then f else if 1 / 2 < d then f + 1 else if even f then f else f + 1)"

definition fl :: "rat \<Rightarrow> jsnum" where
  "fl q = (if q = 0 then Num 0 else
     let a = \<bar>q\<bar>;
         e = max (ilog2 a) (- 1022);
         u = pow2 (e - 52);
         m = round_even (a / u);
         r = of_int m * u
     in if 1024 \<le> e \<or> (e = 1023 \<and> m = 2 ^ 53) then (if 0 < q then PInf else NInf)
        else Num (if 0 < q then r else - r))"

definition jsign :: "jsnum \<Rightarrow> int" where
  "jsign x = (case x of Num a \<Rightarrow> (if a = 0 then 0 else if 0 < a then 1 else - 1)
     | PInf \<Rightarrow> 1 | NInf \<Rightarrow> - 1 | NaN \<Rightarrow> 0)"

definition jadd :: "jsnum \<Rightarrow> jsnum \<Rightarrow> jsnum" where
  "jadd x y = (case (x, y) of
       (Num a, Num b) \<Rightarrow> fl (a + b)
     | (NaN, _) \<Rightarrow> NaN
     | (_, NaN) \<Rightarrow> NaN
     | (Num a, _) \<Rightarrow> y
     | (_, Num b) \<Rightarrow> x
     | _ \<Rightarrow> (if x = y then x else NaN))"

definition jmul :: "jsnum \<Rightarrow> jsnum \<Rightarrow> jsnum" where
  "jmul x y = (case (x, y) of
       (Num a, Num b) \<Rightarrow> fl (a * b)
     | _ \<Rightarrow> (if jsign x * jsign y = 0 then NaN
             else if 0 < jsign x * jsign y then PInf else NInf))"

definition jdiv :: "jsnum \<Rightarrow> jsnum \<Rightarrow> jsnum" where
  \<comment> \<open>The dashboard divides only by a total that is greater than zero; a zero divisor
      (whose quotient depends on the sign of the zero) is taken as \<open>+0\<close>.\<close>
  "jdiv x y = (case (x, y) of
       (Num a, Num b) \<Rightarrow>
         (if b = 0 then (if a = 0 then NaN else if 0 < a then PInf else NInf)
          else fl (a / b))
     | (NaN, _) \<Rightarrow> NaN
     | (_, NaN) \<Rightarrow> NaN
     | (Num a, _) \<Rightarrow> Num 0
     | (_, Num b) \<Rightarrow> (if 0 \<le> jsign x * jsign y then x else (if x = PInf then NInf else PInf))
     | _ \<Rightarrow> NaN)"

definition jgt :: "jsnum \<Rightarrow> jsnum \<Rightarrow> bool" where
  "jgt x y = (case (x, y) of
       (Num a, Num b) \<Rightarrow> b < a
     | (NaN, _) \<Rightarrow> False
     | (_, NaN) \<Rightarrow> False
     | (PInf, _) \<Rightarrow> y \<noteq> PInf
     | (_, NInf) \<Rightarrow> x \<noteq> NInf
     | _ \<Rightarrow> False)"

definition truthy :: "jsnum \<Rightarrow> bool" where
  "truthy x = (x \<noteq> Num 0 \<and> x \<noteq> NaN)"

section \<open>JavaScript strings\<close>

text \<open>
  A string is a sequence of 16-bit code units, and \<open><\<close> on strings (which the default
  \<open>sort\<close> uses) compares them unit by unit, a proper prefix first: the lexicographic
  order of lists. \<open>js\<close> embeds an ASCII literal.
\<close>

type_synonym js_string = "16 word list"

definition js :: "string \<Rightarrow> js_string" where
  "js s = map (\<lambda>c. of_nat (of_char c)) s"

definition or_empty :: "'a list option \<Rightarrow> 'a list" where
  \<comment> \<open>\<open>(data || [])\<close>: a failed fetch leaves \<open>data\<close> null\<close>
  "or_empty d = (case d of None \<Rightarrow> [] | Some xs \<Rightarrow> xs)"

fun js_join :: "js_string \<Rightarrow> js_string list \<Rightarrow> js_string" where
  \<comment> \<open>\<open>Array.prototype.join\<close> on an array of strings\<close>
  "js_join sep [] = []"
| "js_join sep [x] = x"
| "js_join sep (x # y # ys) = x @ sep @ js_join sep (y # ys)"

fun js_includes :: "js_string \<Rightarrow> js_string \<Rightarrow> bool" where
  \<comment> \<open>\<open>String.prototype.includes\<close>\<close>
  "js_includes [] w = (w = [])"
| "js_includes (c # cs) w = (take (length w) (c # cs) = w \<or> js_includes cs w)"

subsection \<open>Number.prototype.toFixed(2) and integers in template literals\<close>

text \<open>
  \<open>toFixed\<close> prints the digits of the nearest multiple of a hundredth in full. It hands
  a finite number of magnitude \<open>10\<^sup>2\<^sup>1\<close> or more to the general
  number-to-string conversion, whose exponent notation is not spelled out here:
  \<open>NumberToString\<close> stands for that text.
\<close>

datatype jstext = Str js_string | NumberToString rat

fun dec :: "nat \<Rightarrow> string" where
  "dec n = (if n < 10 then [''0123456789'' ! n]
            else dec (n div 10) @ [''0123456789'' ! (n mod 10)])"

definition round_half_up :: "rat \<Rightarrow> nat" where
  \<comment> \<open>for \<open>x \<ge> 0\<close>: the integer nearest to \<open>x\<close>, the larger one on a tie\<close>
  "round_half_up x = nat \<lfloor>x + 1 / 2\<rfloor>"

definition fixed2 :: "rat \<Rightarrow> string" where
  \<comment> \<open>for \<open>0 \<le> x < 10\<^sup>2\<^sup>1\<close>: digits of \<open>n\<close>, padded to three, point before the last two\<close>
  "fixed2 x = (let m = dec (round_half_up (x * 100));
                   m = replicate (3 - length m) (CHR ''0'') @ m
               in take (length m - 2) m @ ''.'' @ drop (length m - 2) m)"

definition toFixed2 :: "jsnum \<Rightarrow> jstext" where
  "toFixed2 x = (case x of
       NaN \<Rightarrow> Str (js ''NaN'')
     | PInf \<Rightarrow> Str (js ''Infinity'')
     | NInf \<Rightarrow> Str (js ''-Infinity'')
     | Num q \<Rightarrow>
         (if 10 ^ 21 \<le> \<bar>q\<bar> then NumberToString q
          else Str (js ((if q < 0 then ''-'' else []) @ fixed2 \<bar>q\<bar>))))"

text \<open>
  A number in a template literal is printed with the fewest digits that still identify
  the double, followed by zeros up to its magnitude; where several digit strings of that
  length do, V8 takes the one closest to the value. Up to \<open>2\<^sup>5\<^sup>3\<close> that is the integer
  in full. Only integers of the store are printed this way here: at most 64 bits wide,
  read from JSON into the nearest double, and so below \<open>10\<^sup>2\<^sup>1\<close>, where the exponent
  notation would start.
\<close>

definition shortest_at :: "nat \<Rightarrow> nat \<Rightarrow> nat option" where
  \<comment> \<open>the \<open>k\<close>-digit number whose multiple by the remaining power of ten rounds to the
      double \<open>x\<close>, the candidate nearer to \<open>x\<close> first\<close>
  "shortest_at x k =
     (let p = 10 ^ (length (dec x) - k);
          lo = x div p;
          near = (if 2 * (x mod p) < p \<or> (2 * (x mod p) = p \<and> even lo)
                  then [lo, lo + 1] else [lo + 1, lo])
      in List.find (\<lambda>s. 10 ^ (k - 1) \<le> s \<and> s < 10 ^ k \<and> fl (of_nat (s * p)) = Num (of_nat x))
           near)"

definition printed_integer :: "nat \<Rightarrow> nat" where
  \<comment> \<open>the integer that the printed digits of the double \<open>x\<close> denote: the first length
      \<open>k\<close> that has such a number, with the zeros that follow it\<close>
  "printed_integer x =
     (case List.map_filter
             (\<lambda>k. map_option (\<lambda>s. s * 10 ^ (length (dec x) - k)) (shortest_at x k))
             [1 ..< length (dec x) + 1] of
        [] \<Rightarrow> x
      | v # _ \<Rightarrow> v)"

definition integer_digits :: "nat \<Rightarrow> string" where
  "integer_digits x = dec (printed_integer x)"

definition integer_text :: "'a::len word \<Rightarrow> js_string" where
  \<comment> \<open>\<open>${n}\<close> for an integer column of the store, read as signed\<close>
  "integer_text w = (case fl (of_int (sint w)) of
       Num q \<Rightarrow> js ((if q < 0 then ''-'' else []) @ integer_digits (nat \<lfloor>\<bar>q\<bar>\<rfloor>))
     | PInf \<Rightarrow> js ''Infinity''
     | NInf \<Rightarrow> js ''-Infinity''
     | NaN \<Rightarrow> js ''NaN'')"

section \<open>Dashboard: weighted GPA and grade distribution\<close>

text \<open>
  \<open>GET /api/dashboard\<close> fetches \<open>grade, status, courses!inner(credits)\<close> of the tenant's
  enrollments and folds them into two totals and the grade distribution. In the store a
  grade is free text or null (\<open>grade TEXT DEFAULT NULL\<close>) and credits are a 32-bit
  integer; the handler allows for a missing course and for missing credits all the same.
\<close>

record course_credits =
  credits :: "32 word option"

record graded_row =
  grade :: "js_string option"
  status :: js_string
  courses :: "course_credits option"

definition gradePoints :: "(js_string \<times> rat) list" where
  \<comment> \<open>the own properties of the object literal; each value is the double of its literal\<close>
  "gradePoints =
    [(js ''A+'', 4), (js ''A'', 4), (js ''A-'', 37 / 10),
     (js ''B+'', 33 / 10), (js ''B'', 3), (js ''B-'', 27 / 10),
     (js ''C+'', 23 / 10), (js ''C'', 2), (js ''C-'', 17 / 10),
     (js ''D+'', 13 / 10), (js ''D'', 1), (js ''D-'', 7 / 10),
     (js ''F'', 0)]"

text \<open>
  \<open>gradePoints\<close> and \<open>gradeDistribution\<close> are plain object literals, so a property read
  that finds no own property goes on to \<open>Object.prototype\<close>. Its members in Node are
  listed with the text each becomes when converted to a string: the functions print
  their native source, and \<open>__proto__\<close> reads as the prototype object itself.
\<close>

definition object_prototype :: "(js_string \<times> js_string) list" where
  "object_prototype =
    [(js ''constructor'', js ''function Object() { [native code] }''),
     (js ''__defineGetter__'', js ''function __defineGetter__() { [native code] }''),
     (js ''__defineSetter__'', js ''function __defineSetter__() { [native code] }''),
     (js ''hasOwnProperty'', js ''function hasOwnProperty() { [native code] }''),
     (js ''__lookupGetter__'', js ''function __lookupGetter__() { [native code] }''),
     (js ''__lookupSetter__'', js ''function __lookupSetter__() { [native code] }''),
     (js ''isPrototypeOf'', js ''function isPrototypeOf() { [native code] }''),
     (js ''propertyIsEnumerable'', js ''function propertyIsEnumerable() { [native code] }''),
     (js ''toString'', js ''function toString() { [native code] }''),
     (js ''valueOf'', js ''function valueOf() { [native code] }''),
     (js ''__proto__'', js ''[object Object]''),
     (js ''toLocaleString'', js ''function toLocaleString() { [native code] }'')]"

datatype grade_lookup = Undefined | Own jsnum | Inherited js_string

definition gradePoints_get :: "js_string \<Rightarrow> grade_lookup" where
  \<comment> \<open>\<open>gradePoints[e.grade]\<close>\<close>
  "gradePoints_get g = (case map_of gradePoints g of
       Some q \<Rightarrow> Own (fl q)
     | None \<Rightarrow> (case map_of object_prototype g of
         Some s \<Rightarrow> Inherited s
       | None \<Rightarrow> Undefined))"

definition to_number :: "grade_lookup \<Rightarrow> jsnum" where
  \<comment> \<open>the operand of \<open>*\<close>: a function or an object converts to NaN, as \<open>undefined\<close> does\<close>
  "to_number p = (case p of Own x \<Rightarrow> x | _ \<Rightarrow> NaN)"

definition credits_or_3 :: "graded_row \<Rightarrow> jsnum" where
  \<comment> \<open>\<open>e.courses?.credits || 3\<close>\<close>
  "credits_or_3 e = (case courses e of
       None \<Rightarrow> fl 3
     | Some c \<Rightarrow> (case credits c of
         None \<Rightarrow> fl 3
       | Some n \<Rightarrow> (if truthy (fl (of_int (sint n))) then fl (of_int (sint n)) else fl 3)))"

text \<open>
  A value of \<open>gradeDistribution\<close> is a count, or text once \<open>+ 1\<close> has been applied to
  something that is not a number. A count is bounded by the length of the fetched array
  (below \<open>2\<^sup>3\<^sup>2\<close>), where adding one is exact, so counts are natural numbers.
\<close>

datatype tally = Count nat | Text js_string

definition bump :: "(js_string \<times> tally) list \<Rightarrow> js_string \<Rightarrow> (js_string \<times> tally) list" where
  \<comment> \<open>\<open>gradeDistribution[g] = (gradeDistribution[g] || 0) + 1\<close>; an assignment to
      \<open>__proto__\<close> reaches the inherited setter, which ignores a value that is no object\<close>
  "bump d g =
     (let v = (case map_of d g of
                 Some (Count n) \<Rightarrow> Count (n + 1)
               | Some (Text s) \<Rightarrow> (if s = [] then Count 1 else Text (s @ js ''1''))
               | None \<Rightarrow> (case map_of object_prototype g of
                   Some s \<Rightarrow> Text (s @ js ''1'')
                 | None \<Rightarrow> Count 1))
      in if g = js ''__proto__'' then d else AList.update g v d)"

record aggregate =
  totalCredits :: jsnum
  totalGradePoints :: jsnum
  gradeDistribution :: "(js_string \<times> tally) list"

definition grade_step :: "graded_row \<Rightarrow> aggregate \<Rightarrow> aggregate" where
  \<comment> \<open>the body of the \<open>forEach\<close>\<close>
  "grade_step e s = (case grade e of
       None \<Rightarrow> s
     | Some g \<Rightarrow>
        (if g \<noteq> [] \<and> gradePoints_get g \<noteq> Undefined then
           (let c = credits_or_3 e in
            s\<lparr>totalCredits := jadd (totalCredits s) c,
              totalGradePoints := jadd (totalGradePoints s) (jmul (to_number (gradePoints_get g)) c),
              gradeDistribution := bump (gradeDistribution s) g\<rparr>)
         else s))"

definition aggregate_grades :: "graded_row list option \<Rightarrow> aggregate" where
  "aggregate_grades allEnrollments =
     fold grade_step (or_empty allEnrollments)
       \<lparr>totalCredits = Num 0, totalGradePoints = Num 0, gradeDistribution = []\<rparr>"

definition no_data :: js_string where
  \<comment> \<open>the em dash U+2014\<close>
  "no_data = [0x2014]"

definition gpa :: "graded_row list option \<Rightarrow> jstext" where
  "gpa allEnrollments =
     (let s = aggregate_grades allEnrollments in
      if jgt (totalCredits s) (Num 0)
      then toFixed2 (jdiv (totalGradePoints s) (totalCredits s))
      else Str no_data)"

definition graded :: "string \<Rightarrow> 32 word \<Rightarrow> graded_row" where
  \<comment> \<open>a fetched row of a completed enrollment, with its grade and the credits of its course\<close>
  "graded g n = \<lparr>grade = Some (js g), status = js ''completed'',
                  courses = Some \<lparr>credits = Some n\<rparr>\<rparr>"

text \<open>
  The spec's words for the aggregation: a record is recognized when its grade is an entry
  of the Grade Scale, its points are those of the entry, and the counts of a distribution
  add up to \<open>counted\<close>. A record is \<open>inherited\<close> when its grade names a member of
  \<open>Object.prototype\<close> instead.
\<close>

definition recognized :: "graded_row \<Rightarrow> bool" where
  "recognized e = (case grade e of None \<Rightarrow> False | Some g \<Rightarrow> map_of gradePoints g \<noteq> None)"

definition inherited :: "graded_row \<Rightarrow> bool" where
  "inherited e = (case grade e of None \<Rightarrow> False | Some g \<Rightarrow> map_of object_prototype g \<noteq> None)"

definition points :: "graded_row \<Rightarrow> jsnum" where
  "points e = (case grade e of None \<Rightarrow> NaN
     | Some g \<Rightarrow> (case map_of gradePoints g of None \<Rightarrow> NaN | Some q \<Rightarrow> fl q))"

definition counted :: "(js_string \<times> tally) list \<Rightarrow> nat" where
  "counted d = sum_list (map (\<lambda>(g, v). case v of Count n \<Rightarrow> n | Text _ \<Rightarrow> 0) d)"

definition all_counts :: "(js_string \<times> tally) list \<Rightarrow> bool" where
  "all_counts d = list_all (\<lambda>(g, v). case v of Count n \<Rightarrow> True | Text _ \<Rightarrow> False) d"

section \<open>CSV export\<close>

text \<open>
  \<open>GET /api/export/students\<close> selects \<open>id, name, email, course, created_at\<close> of the
  tenant's students, \<open>GET /api/export/enrollments\<close> the tenant's enrollments with
  \<open>students!inner(name, email)\<close> and \<open>courses!inner(code, name, credits)\<close>, both ordered
  by id. Each fetched row becomes one template literal; the lines are joined with the
  header by \<open>\n\<close>. Of the columns only the grade can be null: the others are
  \<open>NOT NULL\<close> in the migration, and every create and update of a student requires the
  student's texts. The fields of a row type carry its prefix, nested ones the name of
  the joined table as well (\<open>ee_courses_code\<close> is \<open>r.courses.code\<close>).
\<close>

record student_export =
  se_id :: "64 word"
  se_name :: js_string
  se_email :: js_string
  se_course :: js_string
  se_created_at :: js_string

record enrollment_export =
  ee_id :: "64 word"
  ee_grade :: "js_string option"
  ee_semester :: js_string
  ee_status :: js_string
  ee_enrolled_at :: js_string
  ee_students_name :: js_string
  ee_students_email :: js_string
  ee_courses_code :: js_string
  ee_courses_name :: js_string
  ee_courses_credits :: "32 word"

definition quote :: js_string where
  "quote = [0x22]"

definition comma :: js_string where
  "comma = [0x2C]"

definition newline :: js_string where
  "newline = [0x0A]"

definition student_line :: "student_export \<Rightarrow> js_string" where
  \<comment> \<open>the template literal of the students export, chunk by chunk\<close>
  "student_line r =
     integer_text (se_id r) @ (comma @ quote) @ se_name r @ (quote @ comma @ quote)
     @ se_email r @ (quote @ comma @ quote) @ se_course r @ (quote @ comma @ quote)
     @ se_created_at r @ quote"

definition students_header :: js_string where
  "students_header = js ''ID,Name,Email,Course,Created At''"

definition export_students :: "student_export list option \<Rightarrow> js_string" where
  "export_students fetched =
     js_join newline (students_header # map student_line (or_empty fetched))"

definition grade_or_empty :: "js_string option \<Rightarrow> js_string" where
  \<comment> \<open>\<open>r.grade || ''\<close>\<close>
  "grade_or_empty g = (case g of None \<Rightarrow> [] | Some s \<Rightarrow> s)"

definition enrollment_line :: "enrollment_export \<Rightarrow> js_string" where
  \<comment> \<open>the template literal of the enrollments export, chunk by chunk\<close>
  "enrollment_line r =
     integer_text (ee_id r) @ (comma @ quote) @ ee_students_name r @ (quote @ comma @ quote)
     @ ee_students_email r @ (quote @ comma @ quote) @ ee_courses_code r
     @ (quote @ comma @ quote) @ ee_courses_name r @ (quote @ comma)
     @ integer_text (ee_courses_credits r) @ (comma @ quote) @ grade_or_empty (ee_grade r)
     @ (quote @ comma @ quote) @ ee_semester r @ (quote @ comma @ quote) @ ee_status r
     @ (quote @ comma @ quote) @ ee_enrolled_at r @ quote"

definition enrollments_header :: js_string where
  "enrollments_header =
     js ''ID,Student Name,Student Email,Course Code,Course Name,Credits,Grade,Semester,Status,Enrolled At''"

definition export_enrollments :: "enrollment_export list option \<Rightarrow> js_string" where
  "export_enrollments fetched =
     js_join newline (enrollments_header # map enrollment_line (or_empty fetched))"

text \<open>The spec's words for a line: fields joined by commas, a text field between quotes.\<close>

definition quoted :: "js_string \<Rightarrow> js_string" where
  "quoted s = quote @ s @ quote"

definition comma_joined :: "js_string list \<Rightarrow> js_string" where
  "comma_joined parts = js_join comma parts"

section \<open>The record store\<close>

text \<open>
  The tables as the migration declares them: ids are \<open>BIGSERIAL\<close>/\<open>BIGINT\<close>, credits
  \<open>INTEGER NOT NULL\<close>, the texts \<open>NOT NULL\<close> but for the grade, the owner a UUID. A field
  carries the initial of its table as a prefix.
\<close>

type_synonym uuid = js_string

record course =
  c_id :: "64 word"
  c_code :: js_string
  c_name :: js_string
  c_credits :: "32 word"
  c_department :: js_string
  c_user_id :: uuid
  c_created_at :: js_string

record enrollment =
  e_id :: "64 word"
  e_student_id :: "64 word"
  e_course_id :: "64 word"
  e_grade :: "js_string option"
  e_semester :: js_string
  e_status :: js_string
  e_user_id :: uuid
  e_enrolled_at :: js_string

text \<open>
  Modelled from the spec: the students table, whose migration is not among the sources
  (Student: identifier, name, email, course-of-study label, creation timestamp, scoped by
  the owning tenant).
\<close>

record student =
  s_id :: "64 word"
  s_name :: js_string
  s_email :: js_string
  s_course :: js_string
  s_user_id :: uuid
  s_created_at :: js_string

record store =
  tbl_students :: "student list"
  tbl_courses :: "course list"
  tbl_enrollments :: "enrollment list"

text \<open>
  Modelled from the spec: the hosted store itself (the Record Store, an external
  collaborator) is not code of the repository. It is taken as in-memory tables that answer
  the queries the handlers build: \<open>eq\<close> filters select rows, \<open>range(lo, hi)\<close> returns the
  rows at the zero-based positions \<open>lo \<dots> hi\<close> of the filtered, ordered result together
  with the exact count of that result (a page beyond the last one returns zero rows, not
  an error, with the full count), \<open>single()\<close> yields a row when exactly one is selected,
  and \<open>update\<close> writes the given columns of the selected rows and no others.
\<close>

definition range_rows :: "int \<Rightarrow> int \<Rightarrow> 'r list \<Rightarrow> 'r list" where
  "range_rows lo hi xs =
     map (\<lambda>p. xs ! p) (filter (\<lambda>p. lo \<le> int p \<and> int p \<le> hi) [0..<length xs])"

record 'r fetched =
  f_data :: "'r list"
  f_error :: "js_string option"
  f_count :: nat

definition run_range :: "'r list \<Rightarrow> int \<Rightarrow> int \<Rightarrow> 'r fetched" where
  "run_range matching lo hi =
     \<lparr>f_data = range_rows lo hi matching, f_error = None, f_count = length matching\<rparr>"

definition find_single :: "('r \<Rightarrow> bool) \<Rightarrow> 'r list \<Rightarrow> 'r option" where
  "find_single P xs = (case filter P xs of [r] \<Rightarrow> Some r | _ \<Rightarrow> None)"

definition update_where :: "('r \<Rightarrow> bool) \<Rightarrow> ('r \<Rightarrow> 'r) \<Rightarrow> 'r list \<Rightarrow> 'r list" where
  "update_where P f xs = map (\<lambda>r. if P r then f r else r) xs"

text \<open>
  A number the handler passes to the store (in a filter or as a column value) is printed
  and parsed again as an integer of the column's width; anything but the digits of an
  integer in range is refused. NaN and the infinities are sent as null.
\<close>

definition sent_integer :: "jsnum \<Rightarrow> int option" where
  \<comment> \<open>the integer the store reads from the printed number, if it reads one\<close>
  "sent_integer x = (case x of
       Num q \<Rightarrow> (if q = of_int \<lfloor>q\<rfloor> \<and> \<bar>q\<bar> < 10 ^ 21
                 then Some ((if q < 0 then - 1 else 1) * int (printed_integer (nat \<lfloor>\<bar>q\<bar>\<rfloor>)))
                 else None)
     | _ \<Rightarrow> None)"

definition as_bigint :: "jsnum \<Rightarrow> 64 word option" where
  "as_bigint x = (case sent_integer x of
       Some n \<Rightarrow> (if - (2 ^ 63) \<le> n \<and> n < 2 ^ 63 then Some (of_int n) else None)
     | None \<Rightarrow> None)"

definition as_integer :: "jsnum \<Rightarrow> 32 word option" where
  "as_integer x = (case sent_integer x of
       Some n \<Rightarrow> (if - (2 ^ 31) \<le> n \<and> n < 2 ^ 31 then Some (of_int n) else None)
     | None \<Rightarrow> None)"

section \<open>Distinct-value listings\<close>

text \<open>
  \<open>GET /api/departments\<close> and \<open>GET /api/semesters\<close> name two columns of their collection:
  the owner, which the query filters by, and the field it selects. What a handler reads
  of a fetched row is a JSON value, a string or null (\<open>None\<close>). The migration declares
  both fields \<open>NOT NULL\<close>, but the handlers make no use of that, so the collection is taken
  with any value in the field. The selected values go through \<open>new Set\<close>, which keeps the
  first occurrence of each value, in order, and through the default \<open>sort\<close>, which
  compares the string forms of the elements (that of null is the text \<open>null\<close>) and leaves
  elements that compare equal in the order they had.
\<close>

record course_department =
  cd_user_id :: uuid
  cd_department :: "js_string option"

record enrollment_semester =
  es_user_id :: uuid
  es_semester :: "js_string option"

definition new_Set :: "'a list \<Rightarrow> 'a list" where
  "new_Set xs = fold (\<lambda>x seen. if x \<in> set seen then seen else seen @ [x]) xs []"

definition to_string :: "js_string option \<Rightarrow> js_string" where
  \<comment> \<open>\<open>ToString\<close> of a string or null\<close>
  "to_string v = (case v of None \<Rightarrow> js ''null'' | Some s \<Rightarrow> s)"

definition js_sort :: "js_string option list \<Rightarrow> js_string option list" where
  \<comment> \<open>\<open>Array.prototype.sort\<close> without a comparator\<close>
  "js_sort xs = sort_key to_string xs"

definition select_department ::
  "uuid \<Rightarrow> course_department list \<Rightarrow> course_department list option" where
  \<comment> \<open>\<open>from('courses').select('department').eq('user_id', req.user.id)\<close>\<close>
  "select_department uid rows = Some (filter (\<lambda>c. cd_user_id c = uid) rows)"

definition select_semester ::
  "uuid \<Rightarrow> enrollment_semester list \<Rightarrow> enrollment_semester list option" where
  \<comment> \<open>\<open>from('enrollments').select('semester').eq('user_id', req.user.id)\<close>\<close>
  "select_semester uid rows = Some (filter (\<lambda>e. es_user_id e = uid) rows)"

definition get_departments :: "uuid \<Rightarrow> course_department list \<Rightarrow> js_string option list" where
  "get_departments uid rows =
     js_sort (new_Set (map cd_department (or_empty (select_department uid rows))))"

definition get_semesters :: "uuid \<Rightarrow> enrollment_semester list \<Rightarrow> js_string option list" where
  "get_semesters uid rows =
     js_sort (new_Set (map es_semester (or_empty (select_semester uid rows))))"

section \<open>Paginated listings\<close>

text \<open>
  \<open>GET /api/students\<close>, \<open>GET /api/courses\<close> and \<open>GET /api/enrollments\<close> build a query
  (tenant, optional search and equality filters, newest first), ask for one window of it
  and report the exact count. What the filters select is the store's business (\<open>ilike\<close>
  patterns among it): \<open>query\<close> is the query as built, which answers \<open>range(lo, hi)\<close> with
  rows, error and count. The branch for \<open>all=true\<close>, which lists without pages for the
  dropdowns, is left out. The page is \<open>Number(page)\<close> of the request, here a whole
  number, on which the arithmetic of the window is exact (as it is for doubles well below
  \<open>2\<^sup>5\<^sup>3\<close>). The count is an exact integer and a tenth of it is at least one tenth
  away from the next integer unless it is one, so \<open>Math.ceil(count / pageSize)\<close> is the
  ceiling of the exact quotient.
\<close>

record 'r listing =
  l_rows :: "'r list"
  l_total :: nat
  l_page :: int
  l_totalPages :: int

definition list_page ::
  "js_string \<Rightarrow> (int \<Rightarrow> int \<Rightarrow> 'r fetched) \<Rightarrow> int \<Rightarrow> (nat \<times> js_string) + 'r listing" where
  "list_page failure query page =
     (let pageSize = 10;
          offset = (page - 1) * pageSize;
          r = query offset (offset + pageSize - 1)
      in case f_error r of
           Some _ \<Rightarrow> Inl (500, failure)
         | None \<Rightarrow> Inr \<lparr>l_rows = f_data r, l_total = f_count r, l_page = page,
                        l_totalPages = \<lceil>(of_nat (f_count r) :: rat) / of_int pageSize\<rceil>\<rparr>)"

definition list_students ::
  "(int \<Rightarrow> int \<Rightarrow> student fetched) \<Rightarrow> int \<Rightarrow> (nat \<times> js_string) + student listing" where
  "list_students = list_page (js ''Failed to fetch students.'')"

definition list_courses ::
  "(int \<Rightarrow> int \<Rightarrow> course fetched) \<Rightarrow> int \<Rightarrow> (nat \<times> js_string) + course listing" where
  "list_courses = list_page (js ''Failed to fetch courses.'')"

text \<open>
  The enrollments listing joins each enrollment with its student and its course and
  flattens the joined row before it answers.
\<close>

record joined_enrollment =
  je_id :: "64 word"
  je_grade :: "js_string option"
  je_semester :: js_string
  je_status :: js_string
  je_enrolled_at :: js_string
  je_user_id :: uuid
  je_students_id :: "64 word"
  je_students_name :: js_string
  je_students_email :: js_string
  je_courses_id :: "64 word"
  je_courses_code :: js_string
  je_courses_name :: js_string
  je_courses_credits :: "32 word"

record flat_enrollment =
  fe_id :: "64 word"
  fe_grade :: "js_string option"
  fe_semester :: js_string
  fe_status :: js_string
  fe_enrolled_at :: js_string
  fe_student_id :: "64 word"
  fe_student_name :: js_string
  fe_student_email :: js_string
  fe_course_id :: "64 word"
  fe_course_code :: js_string
  fe_course_name :: js_string
  fe_course_credits :: "32 word"

definition flatten :: "joined_enrollment \<Rightarrow> flat_enrollment" where
  "flatten e = \<lparr>fe_id = je_id e, fe_grade = je_grade e, fe_semester = je_semester e,
     fe_status = je_status e, fe_enrolled_at = je_enrolled_at e,
     fe_student_id = je_students_id e, fe_student_name = je_students_name e,
     fe_student_email = je_students_email e, fe_course_id = je_courses_id e,
     fe_course_code = je_courses_code e, fe_course_name = je_courses_name e,
     fe_course_credits = je_courses_credits e\<rparr>"

definition list_enrollments ::
  "(int \<Rightarrow> int \<Rightarrow> joined_enrollment fetched) \<Rightarrow> int
   \<Rightarrow> (nat \<times> js_string) + flat_enrollment listing" where
  "list_enrollments query page =
     (case list_page (js ''Failed to fetch enrollments.'') query page of
        Inl failed \<Rightarrow> Inl failed
      | Inr l \<Rightarrow> Inr \<lparr>l_rows = map flatten (l_rows l), l_total = l_total l,
                     l_page = l_page l, l_totalPages = l_totalPages l\<rparr>)"

text \<open>
  The three listings on the store as modelled above, where \<open>matching\<close> is the filtered,
  ordered result of the query.
\<close>

definition get_students :: "student list \<Rightarrow> int \<Rightarrow> (nat \<times> js_string) + student listing" where
  "get_students matching = list_students (run_range matching)"

definition get_courses :: "course list \<Rightarrow> int \<Rightarrow> (nat \<times> js_string) + course listing" where
  "get_courses matching = list_courses (run_range matching)"

definition get_enrollments ::
  "joined_enrollment list \<Rightarrow> int \<Rightarrow> (nat \<times> js_string) + flat_enrollment listing" where
  "get_enrollments matching = list_enrollments (run_range matching)"

text \<open>
  What the hosted store answers to a window that begins before the first position is
  said neither by the spec nor by the sources. PostgreSQL itself refuses a negative
  \<open>OFFSET\<close>: \<open>run_range_from_0\<close> is a store that does so and answers every other
  window as above. (The handler reads neither rows nor count of an answer with an error.)
\<close>

definition run_range_from_0 :: "'r list \<Rightarrow> int \<Rightarrow> int \<Rightarrow> 'r fetched" where
  "run_range_from_0 matching lo hi =
     (if lo < 0
      then \<lparr>f_data = [], f_error = Some (js ''OFFSET must not be negative''), f_count = 0\<rparr>
      else run_range matching lo hi)"

text \<open>
  The browser client (\<open>stuChangePage\<close>, \<open>crsChangePage\<close>, \<open>enrChangePage\<close>) keeps the page
  it asks for between 1 and the number of pages it was last told, which it reads as
  \<open>data.totalPages || 1\<close>.
\<close>

record pager =
  currentPage :: int
  totalPages :: int

definition loaded :: "int \<Rightarrow> pager \<Rightarrow> pager" where
  "loaded reported p = p\<lparr>totalPages := (if reported = 0 then 1 else reported)\<rparr>"

definition changePage :: "int \<Rightarrow> pager \<Rightarrow> pager" where
  "changePage delta p =
     (let p = p\<lparr>currentPage := currentPage p + delta\<rparr>;
          p = (if currentPage p < 1 then p\<lparr>currentPage := 1\<rparr> else p);
          p = (if totalPages p < currentPage p then p\<lparr>currentPage := totalPages p\<rparr> else p)
      in p)"

section \<open>Creating and updating records\<close>

text \<open>
  A member of a JSON request body that a handler uses as text is absent, null or a
  string, as the client sends it. A member that a handler only tests (\<open>!x\<close>) and converts
  (\<open>Number(x)\<close>) is held as these two observations of it: the client sends ids and credits
  as the text of form fields, and the parsing of numeric text is not spelled out here.
  The id of the route is the number \<open>Number(req.params.id)\<close>.
\<close>

datatype member = Absent | JNull | JText js_string

definition given :: "member \<Rightarrow> bool" where
  \<comment> \<open>truthiness: neither \<open>undefined\<close>, nor null, nor the empty string\<close>
  "given m = (case m of JText s \<Rightarrow> s \<noteq> [] | _ \<Rightarrow> False)"

definition text_of :: "member \<Rightarrow> js_string" where
  "text_of m = (case m of JText s \<Rightarrow> s | _ \<Rightarrow> [])"

record numeric_member =
  nm_truthy :: bool
  nm_number :: jsnum

datatype reply = Reply nat js_string
  \<comment> \<open>the HTTP status and the \<open>message\<close> or \<open>error\<close> of the JSON body; the stored row that
      a success carries as well is left out\<close>

subsection \<open>Updates\<close>

record student_change =
  sc_name :: member
  sc_email :: member
  sc_course :: member

definition put_student :: "uuid \<Rightarrow> jsnum \<Rightarrow> student_change \<Rightarrow> store \<Rightarrow> reply \<times> store" where
  \<comment> \<open>\<open>PUT /api/students/:id\<close>; nothing is known that makes the store refuse the update\<close>
  "put_student uid ident body db =
     (if \<not> given (sc_name body) \<or> \<not> given (sc_email body) \<or> \<not> given (sc_course body)
      then (Reply 400 (js ''All fields are required.''), db)
      else
        (let target = (\<lambda>s. as_bigint ident = Some (s_id s) \<and> s_user_id s = uid) in
         case find_single target (tbl_students db) of
           None \<Rightarrow> (Reply 404 (js ''Student not found.''), db)
         | Some _ \<Rightarrow>
             (Reply 200 (js ''Student updated successfully!''),
              db\<lparr>tbl_students :=
                   update_where target
                     (\<lambda>s. s\<lparr>s_name := text_of (sc_name body), s_email := text_of (sc_email body),
                             s_course := text_of (sc_course body)\<rparr>)
                     (tbl_students db)\<rparr>)))"

record course_change =
  cc_code :: member
  cc_name :: member
  cc_credits :: numeric_member
  cc_department :: member

definition put_course :: "uuid \<Rightarrow> jsnum \<Rightarrow> course_change \<Rightarrow> store \<Rightarrow> reply \<times> store" where
  \<comment> \<open>\<open>PUT /api/courses/:id\<close>; the store refuses credits that are no 32-bit integer\<close>
  "put_course uid ident body db =
     (if \<not> given (cc_code body) \<or> \<not> given (cc_name body) \<or> \<not> nm_truthy (cc_credits body)
         \<or> \<not> given (cc_department body)
      then (Reply 400 (js ''All fields are required.''), db)
      else
        (let target = (\<lambda>c. as_bigint ident = Some (c_id c) \<and> c_user_id c = uid) in
         case find_single target (tbl_courses db) of
           None \<Rightarrow> (Reply 404 (js ''Course not found.''), db)
         | Some _ \<Rightarrow>
             (case as_integer (nm_number (cc_credits body)) of
                None \<Rightarrow> (Reply 500 (js ''Failed to update course.''), db)
              | Some n \<Rightarrow>
                  (Reply 200 (js ''Course updated successfully!''),
                   db\<lparr>tbl_courses :=
                        update_where target
                          (\<lambda>c. c\<lparr>c_code := text_of (cc_code body), c_name := text_of (cc_name body),
                                  c_credits := n, c_department := text_of (cc_department body)\<rparr>)
                          (tbl_courses db)\<rparr>))))"

text \<open>
  The store's errors, with the messages PostgreSQL gives them (the constraints have their
  default names); the handlers look for the words \<open>duplicate\<close> and \<open>unique\<close> only. The
  message for a number that the column does not take goes on with the offending digits,
  which are left out.
\<close>

datatype store_error =
  UniqueViolation | ForeignKeyViolation string | NotNullViolation string | InvalidInput

definition error_message :: "store_error \<Rightarrow> js_string" where
  "error_message err = (case err of
       UniqueViolation \<Rightarrow>
         js ''duplicate key value violates unique constraint '' @ quote
         @ js ''enrollments_student_id_course_id_semester_key'' @ quote
     | ForeignKeyViolation col \<Rightarrow>
         js ''insert or update on table '' @ quote @ js ''enrollments'' @ quote
         @ js '' violates foreign key constraint '' @ quote
         @ js (''enrollments_'' @ col @ ''_fkey'') @ quote
     | NotNullViolation col \<Rightarrow>
         js ''null value in column '' @ quote @ js col @ quote @ js '' of relation ''
         @ quote @ js ''enrollments'' @ quote @ js '' violates not-null constraint''
     | InvalidInput \<Rightarrow> js ''invalid input syntax for type bigint'')"

record enrollment_change =
  ec_grade :: member
  ec_status :: member
  ec_semester :: member

record enrollment_updates =
  up_grade :: "js_string option option"
  up_status :: "js_string option"
  up_semester :: "js_string option"

definition build_updates :: "enrollment_change \<Rightarrow> enrollment_updates" where
  \<comment> \<open>\<open>if (grade !== undefined) updates.grade = grade || null; if (status) \<dots>;
      if (semester) \<dots>\<close>; \<open>None\<close> is a column that \<open>updates\<close> does not name\<close>
  "build_updates body =
     \<lparr>up_grade = (if ec_grade body \<noteq> Absent
                   then Some (if given (ec_grade body) then Some (text_of (ec_grade body)) else None)
                   else None),
      up_status = (if given (ec_status body) then Some (text_of (ec_status body)) else None),
      up_semester = (if given (ec_semester body) then Some (text_of (ec_semester body)) else None)\<rparr>"

definition apply_updates :: "enrollment_updates \<Rightarrow> enrollment \<Rightarrow> enrollment" where
  "apply_updates u e =
     e\<lparr>e_grade := (case up_grade u of None \<Rightarrow> e_grade e | Some g \<Rightarrow> g),
       e_status := (case up_status u of None \<Rightarrow> e_status e | Some s \<Rightarrow> s),
       e_semester := (case up_semester u of None \<Rightarrow> e_semester e | Some s \<Rightarrow> s)\<rparr>"

definition triple :: "enrollment \<Rightarrow> 64 word \<times> 64 word \<times> js_string" where
  \<comment> \<open>\<open>UNIQUE(student_id, course_id, semester)\<close>\<close>
  "triple e = (e_student_id e, e_course_id e, e_semester e)"

definition update_enrollments ::
  "(enrollment \<Rightarrow> bool) \<Rightarrow> enrollment_updates \<Rightarrow> store \<Rightarrow> store_error + store" where
  \<comment> \<open>the update of a table that held the constraint is refused when the result would not\<close>
  "update_enrollments target u db =
     (let updated = update_where target (apply_updates u) (tbl_enrollments db) in
      if distinct (map triple updated) then Inr (db\<lparr>tbl_enrollments := updated\<rparr>)
      else Inl UniqueViolation)"

definition put_enrollment :: "uuid \<Rightarrow> jsnum \<Rightarrow> enrollment_change \<Rightarrow> store \<Rightarrow> reply \<times> store" where
  \<comment> \<open>\<open>PUT /api/enrollments/:id\<close>\<close>
  "put_enrollment uid ident body db =
     (let target = (\<lambda>e. as_bigint ident = Some (e_id e) \<and> e_user_id e = uid) in
      case find_single target (tbl_enrollments db) of
        None \<Rightarrow> (Reply 404 (js ''Enrollment not found.''), db)
      | Some _ \<Rightarrow>
          (case update_enrollments target (build_updates body) db of
             Inl _ \<Rightarrow> (Reply 500 (js ''Failed to update enrollment.''), db)
           | Inr db' \<Rightarrow> (Reply 200 (js ''Enrollment updated successfully!''), db')))"

text \<open>
  The spec's words for an update: a field that the request omits keeps its value, and so do
  the fields no request can name.
\<close>

definition student_kept :: "student_change \<Rightarrow> student \<Rightarrow> student \<Rightarrow> bool" where
  "student_kept body s s' =
     (s_id s' = s_id s \<and> s_user_id s' = s_user_id s \<and> s_created_at s' = s_created_at s
      \<and> (sc_name body = Absent \<longrightarrow> s_name s' = s_name s)
      \<and> (sc_email body = Absent \<longrightarrow> s_email s' = s_email s)
      \<and> (sc_course body = Absent \<longrightarrow> s_course s' = s_course s))"

definition course_kept :: "course_change \<Rightarrow> course \<Rightarrow> course \<Rightarrow> bool" where
  "course_kept body c c' =
     (c_id c' = c_id c \<and> c_user_id c' = c_user_id c \<and> c_created_at c' = c_created_at c
      \<and> (cc_code body = Absent \<longrightarrow> c_code c' = c_code c)
      \<and> (cc_name body = Absent \<longrightarrow> c_name c' = c_name c)
      \<and> (\<not> nm_truthy (cc_credits body) \<longrightarrow> c_credits c' = c_credits c)
      \<and> (cc_department body = Absent \<longrightarrow> c_department c' = c_department c))"

definition enrollment_kept :: "enrollment_change \<Rightarrow> enrollment \<Rightarrow> enrollment \<Rightarrow> bool" where
  "enrollment_kept body e e' =
     (e_id e' = e_id e \<and> e_student_id e' = e_student_id e \<and> e_course_id e' = e_course_id e
      \<and> e_user_id e' = e_user_id e \<and> e_enrolled_at e' = e_enrolled_at e
      \<and> (ec_grade body = Absent \<longrightarrow> e_grade e' = e_grade e)
      \<and> (ec_status body = Absent \<longrightarrow> e_status e' = e_status e)
      \<and> (ec_semester body = Absent \<longrightarrow> e_semester e' = e_semester e))"

subsection \<open>Creating an enrollment\<close>

record enrollment_request =
  er_student_id :: numeric_member
  er_course_id :: numeric_member
  er_semester :: member
  er_grade :: member
  er_status :: member

record new_enrollment =
  ne_student_id :: jsnum
  ne_course_id :: jsnum
  ne_semester :: js_string
  ne_grade :: "js_string option"
  ne_status :: js_string
  ne_user_id :: uuid

definition insert_enrollment ::
  "64 word \<Rightarrow> js_string \<Rightarrow> new_enrollment \<Rightarrow> store \<Rightarrow> store_error + store" where
  \<comment> \<open>the insert as the migration constrains it: both ids must be 64-bit integers, the
      triple new, the student and the course there; \<open>fresh\<close> is the id the sequence hands
      out and \<open>now\<close> the default of \<open>enrolled_at\<close>. The row-level policy of the insert
      compares the owner with the caller, which the handler sets.\<close>
  "insert_enrollment fresh now row db =
     (case (as_bigint (ne_student_id row), as_bigint (ne_course_id row)) of
        (Some s, Some c) \<Rightarrow>
          (if \<exists>e \<in> set (tbl_enrollments db).
                e_student_id e = s \<and> e_course_id e = c \<and> e_semester e = ne_semester row
           then Inl UniqueViolation
           else if s \<notin> s_id ` set (tbl_students db)
           then Inl (ForeignKeyViolation ''student_id'')
           else if c \<notin> c_id ` set (tbl_courses db)
           then Inl (ForeignKeyViolation ''course_id'')
           else Inr (db\<lparr>tbl_enrollments := tbl_enrollments db @
                  [\<lparr>e_id = fresh, e_student_id = s, e_course_id = c, e_grade = ne_grade row,
                    e_semester = ne_semester row, e_status = ne_status row,
                    e_user_id = ne_user_id row, e_enrolled_at = now\<rparr>]\<rparr>))
      | (Some s, None) \<Rightarrow>
          Inl (case ne_course_id row of Num _ \<Rightarrow> InvalidInput
               | _ \<Rightarrow> NotNullViolation ''course_id'')
      | (None, _) \<Rightarrow>
          Inl (case ne_student_id row of Num _ \<Rightarrow> InvalidInput
               | _ \<Rightarrow> NotNullViolation ''student_id''))"

definition post_enrollment ::
  "uuid \<Rightarrow> 64 word \<Rightarrow> js_string \<Rightarrow> enrollment_request \<Rightarrow> store \<Rightarrow> reply \<times> store" where
  \<comment> \<open>\<open>POST /api/enrollments\<close>\<close>
  "post_enrollment uid fresh now body db =
     (if \<not> nm_truthy (er_student_id body) \<or> \<not> nm_truthy (er_course_id body)
         \<or> \<not> given (er_semester body)
      then (Reply 400 (js ''Student, course, and semester are required.''), db)
      else
        (case insert_enrollment fresh now
                \<lparr>ne_student_id = nm_number (er_student_id body),
                 ne_course_id = nm_number (er_course_id body),
                 ne_semester = text_of (er_semester body),
                 ne_grade = (if given (er_grade body) then Some (text_of (er_grade body)) else None),
                 ne_status = (if given (er_status body) then text_of (er_status body)
                              else js ''enrolled''),
                 ne_user_id = uid\<rparr> db of
           Inl err \<Rightarrow>
             (if js_includes (error_message err) (js ''duplicate'')
                 \<or> js_includes (error_message err) (js ''unique'')
              then (Reply 400 (js ''Student is already enrolled in this course for this semester.''), db)
              else (Reply 500 (js ''Failed to create enrollment.''), db))
         | Inr db' \<Rightarrow> (Reply 201 (js ''Student enrolled successfully!''), db')))"

subsection \<open>A small store\<close>

text \<open>
  One tenant with one student, one course and the enrollment of the student in the course
  for Fall 2024, graded B.
\<close>

definition example_enrollment :: enrollment where
  "example_enrollment =
     \<lparr>e_id = 5, e_student_id = 1, e_course_id = 2, e_grade = Some (js ''B''),
      e_semester = js ''Fall 2024'', e_status = js ''enrolled'', e_user_id = js ''u1'',
      e_enrolled_at = js ''2024-09-01''\<rparr>"

definition example_store :: store where
  "example_store =
     \<lparr>tbl_students = [\<lparr>s_id = 1, s_name = js ''Ada'', s_email = js ''ada@example.org'',
                        s_course = js ''CS'', s_user_id = js ''u1'',
                        s_created_at = js ''2024-01-01''\<rparr>],
      tbl_courses = [\<lparr>c_id = 2, c_code = js ''CS101'', c_name = js ''Programming'',
                       c_credits = 3, c_department = js ''Computer Science'',
                       c_user_id = js ''u1'', c_created_at = js ''2024-01-01''\<rparr>],
      tbl_enrollments = [example_enrollment]\<rparr>"

section \<open>Properties of the dashboard\<close>

lemma fl_small:
  "fl 2 = Num 2" "fl 3 = Num 3" "fl 4 = Num 4" "fl 6 = Num 6" "fl 12 = Num 12" "fl 18 = Num 18"
  by code_simp+

lemma fl_0: "fl 0 = Num 0"
  by (simp add: fl_def)

lemma toFixed2_small:
  "toFixed2 (Num 3) = Str (js ''3.00'')" "toFixed2 (Num 4) = Str (js ''4.00'')"
  "toFixed2 NaN = Str (js ''NaN'')"
  by code_simp+

lemma gradePoints_key_nonempty: "map_of gradePoints g = Some p \<Longrightarrow> g \<noteq> []"
  by (auto simp: gradePoints_def js_def)

lemma gradePoints_constructor: "map_of gradePoints (js ''constructor'') = None"
  by (simp add: gradePoints_def js_def)

lemma gradePoints_A_C:
  "map_of gradePoints (js ''A'') = Some 4" "map_of gradePoints (js ''C'') = Some 2"
  by (simp_all add: gradePoints_def js_def)

lemma object_prototype_constructor:
  "map_of object_prototype (js ''constructor'') = Some (js ''function Object() { [native code] }'')"
  by (simp add: object_prototype_def js_def)

lemma object_prototype_A_C:
  "map_of object_prototype (js ''A'') = None" "map_of object_prototype (js ''C'') = None"
  by (simp_all add: object_prototype_def js_def)

lemma grade_literals:
  "js ''A'' \<noteq> []" "js ''C'' \<noteq> []" "js ''constructor'' \<noteq> []"
  "js ''A'' \<noteq> js ''__proto__''" "js ''C'' \<noteq> js ''__proto__''"
  "js ''constructor'' \<noteq> js ''__proto__''" "js ''A'' \<noteq> js ''constructor''"
  by (simp_all add: js_def)

lemmas dashboard_eval =
  gpa_def aggregate_grades_def or_empty_def graded_def grade_step_def gradePoints_get_def
  to_number_def credits_or_3_def bump_def truthy_def jadd_def jmul_def jdiv_def jgt_def
  jsign_def Let_def fl_small toFixed2_small gradePoints_constructor gradePoints_A_C
  object_prototype_constructor object_prototype_A_C grade_literals

lemma credits_or_3_missing:
  assumes "courses e = None \<or> (\<exists>c. courses e = Some c \<and> (credits c = None \<or> credits c = Some 0))"
  shows "credits_or_3 e = Num 3"
  using assms by (auto simp: credits_or_3_def fl_small fl_0 truthy_def)

text \<open>
  The spec's own example for the weighted GPA: one record graded \<open>A\<close> and one graded
  \<open>C\<close>, three credits each, give \<open>3.00\<close>; no rows, or a failed fetch, give the dash.
\<close>

lemma gpa_A_and_C: "gpa (Some [graded ''A'' 3, graded ''C'' 3]) = Str (js ''3.00'')"
  by (simp add: dashboard_eval)

lemma gpa_no_rows: "gpa (Some []) = Str no_data \<and> gpa None = Str no_data"
  by (simp add: gpa_def aggregate_grades_def or_empty_def jgt_def)

lemma grade_step_recognized:
  assumes "recognized e" 
  shows "grade_step e s =
     s\<lparr>totalCredits := jadd (totalCredits s) (credits_or_3 e),
       totalGradePoints := jadd (totalGradePoints s) (jmul (points e) (credits_or_3 e)),
       gradeDistribution := bump (gradeDistribution s) (the (grade e))\<rparr>"
  using assms
  by (auto simp add: recognized_def grade_step_def gradePoints_get_def points_def to_number_def
      Let_def gradePoints_key_nonempty split: option.splits)

lemma grade_step_skipped:
  assumes "\<not> recognized e" and "\<not> inherited e"
  shows "grade_step e s = s"
  using assms
  by (auto simp add: recognized_def inherited_def grade_step_def gradePoints_get_def
      split: option.splits)

lemma fold_grade_step_totals:
  assumes "\<forall>e \<in> set es. \<not> inherited e"
  shows "totalCredits (fold grade_step es s)
           = foldl jadd (totalCredits s) (map credits_or_3 (filter recognized es))
       \<and> totalGradePoints (fold grade_step es s)
           = foldl jadd (totalGradePoints s)
               (map (\<lambda>e. jmul (points e) (credits_or_3 e)) (filter recognized es))"
  using assms
proof (induction es arbitrary: s)
  case Nil
  show ?case by simp
next
  case (Cons e es)
  show ?case
  proof (cases "recognized e")
    case True
    with Cons show ?thesis
      by (simp add: grade_step_recognized)
  next
    case False
    with Cons show ?thesis
      by (simp add: grade_step_skipped)
  qed
qed


lemma proto_not_clean: "map_of object_prototype g = None \<Longrightarrow> g \<noteq> js ''__proto__''"
  by (auto simp add: object_prototype_def js_def split: if_splits)

lemma counted_update:
  assumes "all_counts d"
  shows "counted (AList.update g (Count (case map_of d g of Some (Count n) \<Rightarrow> n + 1 | _ \<Rightarrow> 1)) d)
         = counted d + 1
       \<and> all_counts (AList.update g (Count (case map_of d g of Some (Count n) \<Rightarrow> n + 1 | _ \<Rightarrow> 1)) d)"
  using assms
proof (induction d)
  case Nil
  show ?case by (simp add: counted_def all_counts_def)
next
  case (Cons kv d)
  obtain k v where kv: "kv = (k, v)" by (cases kv)
  from Cons.prems obtain n where v: "v = Count n"
    by (cases v) (simp_all add: all_counts_def kv)
  from Cons.prems have d: "all_counts d"
    by (simp add: all_counts_def)
  show ?case
  proof (cases "k = g")
    case True
    with d show ?thesis
      by (simp add: kv v counted_def all_counts_def)
  next
    case False
    with Cons.IH[OF d] show ?thesis
      by (simp add: kv v counted_def all_counts_def)
  qed
qed

lemma bump_clean:
  assumes "all_counts d" and "map_of object_prototype g = None"
  shows "counted (bump d g) = counted d + 1 \<and> all_counts (bump d g)"
proof -
  have "bump d g
      = AList.update g (Count (case map_of d g of Some (Count n) \<Rightarrow> n + 1 | _ \<Rightarrow> 1)) d"
  proof (cases "map_of d g")
    case None
    with assms(2) show ?thesis
      by (simp add: bump_def proto_not_clean)
  next
    case (Some v)
    then have "(g, v) \<in> set d"
      by (rule map_of_SomeD)
    with assms(1) obtain n where "v = Count n"
      by (cases v) (auto simp add: all_counts_def list_all_iff)
    with Some assms(2) show ?thesis
      by (simp add: bump_def proto_not_clean)
  qed
  with counted_update[OF assms(1), of g] show ?thesis
    by simp
qed

lemma fold_grade_step_counted:
  assumes "\<forall>e \<in> set es. \<not> inherited e" and "all_counts (gradeDistribution s)"
  shows "counted (gradeDistribution (fold grade_step es s))
           = counted (gradeDistribution s) + length (filter recognized es)
       \<and> all_counts (gradeDistribution (fold grade_step es s))"
  using assms
proof (induction es arbitrary: s)
  case Nil
  then show ?case by simp
next
  case (Cons e es)
  show ?case
  proof (cases "recognized e")
    case True
    from Cons.prems(1) have "\<not> inherited e" by simp
    with True obtain g where g: "grade e = Some g" "map_of object_prototype g = None"
      by (auto simp add: recognized_def inherited_def split: option.splits)
    from bump_clean[OF Cons.prems(2) g(2)]
    have b: "counted (bump (gradeDistribution s) g) = counted (gradeDistribution s) + 1"
      "all_counts (bump (gradeDistribution s) g)"
      by simp_all
    have "counted (gradeDistribution (fold grade_step es (grade_step e s)))
           = counted (gradeDistribution (grade_step e s)) + length (filter recognized es)
       \<and> all_counts (gradeDistribution (fold grade_step es (grade_step e s)))"
      using Cons.prems(1) b(2) True g(1)
      by (intro Cons.IH) (simp_all add: grade_step_recognized)
    with True b(1) g(1) show ?thesis
      by (simp add: grade_step_recognized)
  next
    case False
    with Cons show ?thesis
      by (simp add: grade_step_skipped)
  qed
qed

text \<open>
  What the dashboard does when no fetched grade names a member of \<open>Object.prototype\<close>:
  both totals are the sums, taken in order, over the recognized records alone, the result
  is the quotient printed with two decimals or the dash when the total of credits is not
  positive (so when no record is recognized), and the distribution holds counts only,
  which add up to the number of recognized records.
\<close>

lemma dashboard_without_inherited_grades:
  assumes "\<forall>e \<in> set es. \<not> inherited e"
  shows "gpa (Some es)
         = (let credit_total = foldl jadd (Num 0) (map credits_or_3 (filter recognized es));
                point_total = foldl jadd (Num 0)
                   (map (\<lambda>e. jmul (points e) (credits_or_3 e)) (filter recognized es))
            in if jgt credit_total (Num 0) then toFixed2 (jdiv point_total credit_total)
               else Str no_data)
       \<and> (filter recognized es = [] \<longrightarrow> gpa (Some es) = Str no_data)
       \<and> all_counts (gradeDistribution (aggregate_grades (Some es)))
       \<and> counted (gradeDistribution (aggregate_grades (Some es))) = length (filter recognized es)"
proof -
  let ?s0 = "\<lparr>totalCredits = Num 0, totalGradePoints = Num 0, gradeDistribution = []\<rparr>"
  from fold_grade_step_totals[OF assms, of ?s0]
  have t: "totalCredits (fold grade_step es ?s0)
           = foldl jadd (Num 0) (map credits_or_3 (filter recognized es))"
    "totalGradePoints (fold grade_step es ?s0)
           = foldl jadd (Num 0) (map (\<lambda>e. jmul (points e) (credits_or_3 e)) (filter recognized es))"
    by simp_all
  have g: "gpa (Some es)
         = (let credit_total = foldl jadd (Num 0) (map credits_or_3 (filter recognized es));
                point_total = foldl jadd (Num 0)
                   (map (\<lambda>e. jmul (points e) (credits_or_3 e)) (filter recognized es))
            in if jgt credit_total (Num 0) then toFixed2 (jdiv point_total credit_total)
               else Str no_data)"
    by (simp add: gpa_def aggregate_grades_def or_empty_def t Let_def)
  have n: "filter recognized es = [] \<longrightarrow> gpa (Some es) = Str no_data"
    by (simp add: g jgt_def)
  from fold_grade_step_counted[OF assms, of ?s0]
  have c: "all_counts (gradeDistribution (aggregate_grades (Some es)))"
    "counted (gradeDistribution (aggregate_grades (Some es))) = length (filter recognized es)"
    by (simp_all add: aggregate_grades_def or_empty_def all_counts_def counted_def)
  from g n c show ?thesis by blast
qed

text \<open>
  Claim C1 (the weighted GPA sums credits and points times credits over exactly the
  records whose grade is one of the 13 entries of the Grade Scale). The handler tests
  \<open>gradePoints[e.grade] !== undefined\<close>, and that read also finds what the object literal
  inherits. For the grade \<open>constructor\<close>, which is no entry of the scale, the record is
  counted all the same: its three credits enter the total, its points are NaN, and the
  GPA of the tenant is the text \<open>NaN\<close>. With the record left out, as the claim has it, the
  GPA of the remaining record graded \<open>A\<close> is \<open>4.00\<close>.
\<close>

theorem gpa_counts_inherited_grade:
  "map_of gradePoints (js ''constructor'') = None
   \<and> gpa (Some [graded ''A'' 3, graded ''constructor'' 3]) = Str (js ''NaN'')
   \<and> gpa (Some [graded ''A'' 3]) = Str (js ''4.00'')"
  by (simp add: dashboard_eval)

text \<open>
  Claim C2 (a list with no record whose grade is present and recognized by the Grade
  Scale yields the "no data" marker). The single record below has a grade outside the
  scale, yet the total of credits is 3, the test \<open>totalCredits > 0\<close> succeeds and the
  result is the text \<open>NaN\<close>, not the dash.
\<close>

theorem gpa_sentinel_missed_for_inherited_grade:
  "map_of gradePoints (js ''constructor'') = None
   \<and> totalCredits (aggregate_grades (Some [graded ''constructor'' 3])) = Num 3
   \<and> gpa (Some [graded ''constructor'' 3]) = Str (js ''NaN'')
   \<and> gpa (Some [graded ''constructor'' 3]) \<noteq> Str no_data"
  by (simp add: dashboard_eval) (simp add: js_def no_data_def)

text \<open>
  Claim C3 (the grade distribution counts records per recognized grade, its counts add up
  to the number of recognized records, and an unrecognized grade contributes to no
  bucket). The same read through the prototype gives the unrecognized grade
  \<open>constructor\<close> a bucket of its own, and what is stored there is no count: the inherited
  function, as text, with \<open>1\<close> appended.
\<close>

theorem distribution_bucket_for_inherited_grade:
  "map_of gradePoints (js ''constructor'') = None
   \<and> gradeDistribution (aggregate_grades (Some [graded ''A'' 3, graded ''constructor'' 3]))
       = [(js ''A'', Count 1),
          (js ''constructor'', Text (js ''function Object() { [native code] }1''))]"
  by (simp add: dashboard_eval) (simp add: js_def)

text \<open>
  Claim C10 (a record whose grade is present and recognized, but whose joined course is
  absent or whose credits are missing or zero, enters both sums with 3 credits; it is
  neither skipped nor counted with zero credits). Stated for the body of the loop at any
  state of the accumulators: the total of credits grows by 3, the total of points by
  the points of the grade times 3, and the record is tallied in the distribution.
\<close>

theorem missing_credits_count_as_3:
  assumes "grade e = Some g" and "map_of gradePoints g = Some p"
    and "courses e = None \<or> (\<exists>c. courses e = Some c \<and> (credits c = None \<or> credits c = Some 0))"
  shows "totalCredits (grade_step e s) = jadd (totalCredits s) (Num 3)
       \<and> totalGradePoints (grade_step e s) = jadd (totalGradePoints s) (jmul (fl p) (Num 3))
       \<and> gradeDistribution (grade_step e s) = bump (gradeDistribution s) g"
  using assms(1,2) gradePoints_key_nonempty[OF assms(2)] credits_or_3_missing[OF assms(3)]
  by (simp add: grade_step_def gradePoints_get_def to_number_def Let_def)

theorem missing_credits_witness:
  "totalCredits (grade_step \<lparr>grade = Some (js ''B''), status = js ''enrolled'', courses = None\<rparr>
       \<lparr>totalCredits = Num 4, totalGradePoints = Num 16, gradeDistribution = [(js ''A'', Count 1)]\<rparr>)
     = jadd (Num 4) (Num 3)
   \<and> totalGradePoints (grade_step \<lparr>grade = Some (js ''B''), status = js ''enrolled'', courses = None\<rparr>
       \<lparr>totalCredits = Num 4, totalGradePoints = Num 16, gradeDistribution = [(js ''A'', Count 1)]\<rparr>)
     = jadd (Num 16) (jmul (fl 3) (Num 3))
   \<and> gradeDistribution (grade_step \<lparr>grade = Some (js ''B''), status = js ''enrolled'', courses = None\<rparr>
       \<lparr>totalCredits = Num 4, totalGradePoints = Num 16, gradeDistribution = [(js ''A'', Count 1)]\<rparr>)
     = bump [(js ''A'', Count 1)] (js ''B'')"
  using missing_credits_count_as_3[of
     "\<lparr>grade = Some (js ''B''), status = js ''enrolled'', courses = None\<rparr>" "js ''B''" 3
     "\<lparr>totalCredits = Num 4, totalGradePoints = Num 16, gradeDistribution = [(js ''A'', Count 1)]\<rparr>"]
  by (simp add: gradePoints_def js_def)

section \<open>Properties of the CSV export\<close>

lemma js_join_Cons: "js_join sep (x # xs) = x @ concat (map (\<lambda>y. sep @ y) xs)"
  by (induction xs arbitrary: x) simp_all

lemma integer_text_examples:
  "integer_text (1 :: 64 word) = js ''1''" "integer_text (120 :: 32 word) = js ''120''"
  by code_simp+

text \<open>
  The spec's example: the student \<open>{id: 1, name: "A, B", email: "a@b.com", course: "CS",
  created_at: "2024-01-01"}\<close> is exported with the comma inside the name left as it is.
\<close>

lemma export_one_student:
  "export_students (Some [\<lparr>se_id = 1, se_name = js ''A, B'', se_email = js ''a@b.com'',
       se_course = js ''CS'', se_created_at = js ''2024-01-01''\<rparr>])
   = js ''ID,Name,Email,Course,Created At'' @ newline
     @ js ''1,'' @ quote @ js ''A, B'' @ quote @ comma @ quote @ js ''a@b.com'' @ quote @ comma
     @ quote @ js ''CS'' @ quote @ comma @ quote @ js ''2024-01-01'' @ quote"
  by (simp add: export_students_def or_empty_def student_line_def students_header_def
      integer_text_examples) (simp add: js_def comma_def)

text \<open>
  Claim C8 (the CSV export is the literal header line, a newline, then one line per
  record). The lines are joined by \<open>\n\<close>, so the newline after the header is there only
  when a record follows: without rows, or after a failed fetch, the blob is the header
  and nothing else.
\<close>

theorem export_without_rows_has_no_newline:
  "export_students (Some []) = students_header
   \<and> export_students (Some []) \<noteq> students_header @ newline
   \<and> export_enrollments None = enrollments_header
   \<and> export_enrollments None \<noteq> enrollments_header @ newline"
  by (simp add: export_students_def export_enrollments_def or_empty_def newline_def)

text \<open>
  Claim C8 as amended (the blob is the header line followed, for every record in order,
  by a newline and the record's line, so that lines are separated by newlines, none ends
  the blob, and without records the blob is the header alone; a line is the comma-joined
  list of its fields; a text field stands between double quotes exactly as stored, with
  nothing escaped; the id and the credits are in plain digits, unquoted; an absent grade
  is an empty pair of quotes). Stated for both exports.
\<close>

theorem csv_export_layout:
  "export_students fetched
     = students_header @ concat (map (\<lambda>r. newline @ student_line r) (or_empty fetched))
   \<and> student_line s
     = comma_joined [integer_text (se_id s), quoted (se_name s), quoted (se_email s),
         quoted (se_course s), quoted (se_created_at s)]
   \<and> export_enrollments joined
     = enrollments_header @ concat (map (\<lambda>r. newline @ enrollment_line r) (or_empty joined))
   \<and> enrollment_line e
     = comma_joined [integer_text (ee_id e), quoted (ee_students_name e),
         quoted (ee_students_email e), quoted (ee_courses_code e), quoted (ee_courses_name e),
         integer_text (ee_courses_credits e),
         quoted (case ee_grade e of None \<Rightarrow> [] | Some g \<Rightarrow> g),
         quoted (ee_semester e), quoted (ee_status e), quoted (ee_enrolled_at e)]
   \<and> quoted (grade_or_empty None) = quote @ quote"
proof -
  have blob_students: "export_students fetched
      = students_header @ concat (map (\<lambda>r. newline @ student_line r) (or_empty fetched))"
    by (simp add: export_students_def js_join_Cons comp_def)
  have blob_enrollments: "export_enrollments joined
      = enrollments_header @ concat (map (\<lambda>r. newline @ enrollment_line r) (or_empty joined))"
    by (simp add: export_enrollments_def js_join_Cons comp_def)
  have line_student: "student_line s
      = comma_joined [integer_text (se_id s), quoted (se_name s), quoted (se_email s),
          quoted (se_course s), quoted (se_created_at s)]"
    by (simp add: student_line_def comma_joined_def quoted_def)
  have line_enrollment: "enrollment_line e
      = comma_joined [integer_text (ee_id e), quoted (ee_students_name e),
          quoted (ee_students_email e), quoted (ee_courses_code e), quoted (ee_courses_name e),
          integer_text (ee_courses_credits e),
          quoted (case ee_grade e of None \<Rightarrow> [] | Some g \<Rightarrow> g),
          quoted (ee_semester e), quoted (ee_status e), quoted (ee_enrolled_at e)]"
    by (simp add: enrollment_line_def comma_joined_def quoted_def grade_or_empty_def)
  have no_grade: "quoted (grade_or_empty None) = quote @ quote"
    by (simp add: quoted_def grade_or_empty_def)
  from blob_students line_student blob_enrollments line_enrollment no_grade
  show ?thesis by blast
qed

section \<open>Properties of the distinct-value listings\<close>

lemma new_Set_fold_set:
  "set (fold (\<lambda>x seen. if x \<in> set seen then seen else seen @ [x]) xs acc) = set acc \<union> set xs"
  by (induction xs arbitrary: acc) auto

lemma new_Set_fold_distinct:
  "distinct acc \<Longrightarrow> distinct (fold (\<lambda>x seen. if x \<in> set seen then seen else seen @ [x]) xs acc)"
  by (induction xs arbitrary: acc) auto

lemma set_new_Set: "set (new_Set xs) = set xs"
  by (simp add: new_Set_def new_Set_fold_set)

lemma distinct_new_Set: "distinct (new_Set xs)"
  by (simp add: new_Set_def new_Set_fold_distinct)

lemma set_js_sort: "set (js_sort xs) = set xs"
  by (simp add: js_sort_def)

lemma distinct_js_sort: "distinct (js_sort xs) = distinct xs"
  by (simp add: js_sort_def)

lemma sorted_js_sort: "sorted (map to_string (js_sort xs))"
  by (simp add: js_sort_def)

lemma to_string_without_null:
  assumes "None \<notin> set xs"
  shows "map to_string xs = map the xs"
  using assms by (induction xs) (auto simp add: to_string_def split: option.split)

lemma departments_listed:
  "set (get_departments uid cs) = cd_department ` {c \<in> set cs. cd_user_id c = uid}"
  by (auto simp add: get_departments_def select_department_def or_empty_def set_js_sort
      set_new_Set)

lemma semesters_listed:
  "set (get_semesters uid es) = es_semester ` {e \<in> set es. es_user_id e = uid}"
  by (auto simp add: get_semesters_def select_semester_def or_empty_def set_js_sort
      set_new_Set)

lemma departments_sorted_without_null:
  assumes "\<forall>c \<in> set cs. cd_user_id c = uid \<longrightarrow> cd_department c \<noteq> None"
  shows "None \<notin> set (get_departments uid cs) \<and> sorted (map the (get_departments uid cs))"
proof -
  from assms have none: "None \<notin> set (get_departments uid cs)"
    by (auto simp add: departments_listed)
  then have same: "map to_string (get_departments uid cs) = map the (get_departments uid cs)"
    by (rule to_string_without_null)
  have "sorted (map to_string (get_departments uid cs))"
    by (simp add: get_departments_def sorted_js_sort)
  then have "sorted (map the (get_departments uid cs))"
    unfolding same .
  with none show ?thesis
    by simp
qed

lemma semesters_sorted_without_null:
  assumes "\<forall>e \<in> set es. es_user_id e = uid \<longrightarrow> es_semester e \<noteq> None"
  shows "None \<notin> set (get_semesters uid es) \<and> sorted (map the (get_semesters uid es))"
proof -
  from assms have none: "None \<notin> set (get_semesters uid es)"
    by (auto simp add: semesters_listed)
  then have same: "map to_string (get_semesters uid es) = map the (get_semesters uid es)"
    by (rule to_string_without_null)
  have "sorted (map to_string (get_semesters uid es))"
    by (simp add: get_semesters_def sorted_js_sort)
  then have "sorted (map the (get_semesters uid es))"
    unfolding same .
  with none show ?thesis
    by simp
qed

text \<open>Repeated semesters of three fetched rows come out once each, in ascending order.\<close>

lemma js_sort_new_Set_example:
  "js_sort (new_Set [Some (js ''Spring 2025''), Some (js ''Fall 2024''),
      Some (js ''Spring 2025'')])
   = [Some (js ''Fall 2024''), Some (js ''Spring 2025'')]"
  by code_simp

text \<open>
  Claim C7 (for every tenant and every state of the source collection, also one with
  repeated and with null values of the field, the listings of departments and of
  semesters are sorted ascending, hold no duplicates and hold only non-null values
  present for that tenant). The handlers remove repetitions and nothing else: where rows
  of the tenant hold null, null is listed, once, at the place of the text \<open>null\<close>
  (capitals come before small letters, so after \<open>Physics\<close> and after \<open>Spring 2025\<close>).
  The rows of another tenant are not read.
\<close>

theorem null_value_is_listed:
  "get_departments (js ''u1'')
     [\<lparr>cd_user_id = js ''u1'', cd_department = Some (js ''Physics'')\<rparr>,
      \<lparr>cd_user_id = js ''u1'', cd_department = None\<rparr>,
      \<lparr>cd_user_id = js ''u2'', cd_department = Some (js ''History'')\<rparr>,
      \<lparr>cd_user_id = js ''u1'', cd_department = Some (js ''Mathematics'')\<rparr>,
      \<lparr>cd_user_id = js ''u1'', cd_department = None\<rparr>]
   = [Some (js ''Mathematics''), Some (js ''Physics''), None]
   \<and> get_semesters (js ''u1'')
     [\<lparr>es_user_id = js ''u1'', es_semester = None\<rparr>,
      \<lparr>es_user_id = js ''u1'', es_semester = Some (js ''Spring 2025'')\<rparr>,
      \<lparr>es_user_id = js ''u1'', es_semester = Some (js ''Fall 2024'')\<rparr>]
   = [Some (js ''Fall 2024''), Some (js ''Spring 2025''), None]"
  by code_simp

text \<open>
  Claim C7 as amended: for every tenant and every state of the source collection, each
  listing holds no duplicates and holds exactly the values of the field in the rows of
  that tenant, null among them when such a row holds it; it is in ascending order of the
  string forms of its values, where null counts as the text \<open>null\<close>. When no row of the
  tenant holds null, the listing is therefore sorted ascending and holds non-null values
  only.
\<close>

theorem distinct_listings_sorted:
  "distinct (get_departments uid cs)
   \<and> set (get_departments uid cs) = cd_department ` {c \<in> set cs. cd_user_id c = uid}
   \<and> sorted (map to_string (get_departments uid cs))
   \<and> ((\<forall>c \<in> set cs. cd_user_id c = uid \<longrightarrow> cd_department c \<noteq> None)
       \<longrightarrow> None \<notin> set (get_departments uid cs)
           \<and> sorted (map the (get_departments uid cs)))
   \<and> distinct (get_semesters uid es)
   \<and> set (get_semesters uid es) = es_semester ` {e \<in> set es. es_user_id e = uid}
   \<and> sorted (map to_string (get_semesters uid es))
   \<and> ((\<forall>e \<in> set es. es_user_id e = uid \<longrightarrow> es_semester e \<noteq> None)
       \<longrightarrow> None \<notin> set (get_semesters uid es)
           \<and> sorted (map the (get_semesters uid es)))"
proof -
  have "distinct (get_departments uid cs)"
    by (simp add: get_departments_def distinct_js_sort distinct_new_Set)
  moreover have "sorted (map to_string (get_departments uid cs))"
    by (simp add: get_departments_def sorted_js_sort)
  moreover have "distinct (get_semesters uid es)"
    by (simp add: get_semesters_def distinct_js_sort distinct_new_Set)
  moreover have "sorted (map to_string (get_semesters uid es))"
    by (simp add: get_semesters_def sorted_js_sort)
  ultimately show ?thesis
    using departments_listed[of uid cs] semesters_listed[of uid es]
      departments_sorted_without_null[of cs uid] semesters_sorted_without_null[of es uid]
    by blast
qed

theorem distinct_listings_sorted_witness:
  "distinct (get_departments (js ''u1'')
     [\<lparr>cd_user_id = js ''u1'', cd_department = Some (js ''Physics'')\<rparr>,
      \<lparr>cd_user_id = js ''u2'', cd_department = None\<rparr>,
      \<lparr>cd_user_id = js ''u1'', cd_department = Some (js ''Mathematics'')\<rparr>,
      \<lparr>cd_user_id = js ''u1'', cd_department = Some (js ''Physics'')\<rparr>])
   \<and> sorted (map the (get_departments (js ''u1'')
     [\<lparr>cd_user_id = js ''u1'', cd_department = Some (js ''Physics'')\<rparr>,
      \<lparr>cd_user_id = js ''u2'', cd_department = None\<rparr>,
      \<lparr>cd_user_id = js ''u1'', cd_department = Some (js ''Mathematics'')\<rparr>,
      \<lparr>cd_user_id = js ''u1'', cd_department = Some (js ''Physics'')\<rparr>]))
   \<and> sorted (map the (get_semesters (js ''u1'')
     [\<lparr>es_user_id = js ''u1'', es_semester = Some (js ''Spring 2025'')\<rparr>,
      \<lparr>es_user_id = js ''u1'', es_semester = Some (js ''Fall 2024'')\<rparr>]))"
  using distinct_listings_sorted[of "js ''u1''"
     "[\<lparr>cd_user_id = js ''u1'', cd_department = Some (js ''Physics'')\<rparr>,
      \<lparr>cd_user_id = js ''u2'', cd_department = None\<rparr>,
      \<lparr>cd_user_id = js ''u1'', cd_department = Some (js ''Mathematics'')\<rparr>,
      \<lparr>cd_user_id = js ''u1'', cd_department = Some (js ''Physics'')\<rparr>]"
     "[\<lparr>es_user_id = js ''u1'', es_semester = Some (js ''Spring 2025'')\<rparr>,
      \<lparr>es_user_id = js ''u1'', es_semester = Some (js ''Fall 2024'')\<rparr>]"]
  by (simp add: js_def)

section \<open>Properties of the paginated listings\<close>

lemma filter_window:
  assumes "0 \<le> lo"
  shows "filter (\<lambda>p. lo \<le> int p \<and> int p \<le> hi) [0..<n] = [nat lo ..< min n (nat (hi + 1))]"
proof (induction n)
  case 0
  show ?case by simp
next
  case (Suc n)
  show ?case
  proof (cases "lo \<le> int n \<and> int n \<le> hi")
    case True
    then have a: "nat lo \<le> n" and b: "n < nat (hi + 1)"
      using assms by linarith+
    from b have "min (Suc n) (nat (hi + 1)) = Suc n" and "min n (nat (hi + 1)) = n"
      by simp_all
    with Suc True a show ?thesis
      by simp
  next
    case False
    then consider "int n < lo" | "hi < int n"
      by linarith
    then have "[nat lo ..< min (Suc n) (nat (hi + 1))] = [nat lo ..< min n (nat (hi + 1))]"
    proof cases
      case 1
      then have "Suc n \<le> nat lo" by linarith
      then show ?thesis by simp
    next
      case 2
      then have "nat (hi + 1) \<le> n" by linarith
      then show ?thesis by simp
    qed
    with Suc False show ?thesis
      by simp
  qed
qed

lemma take_upt_min: "take (b - a) [a ..< n] = [a ..< min n b]"
proof (cases "b \<le> n")
  case True
  show ?thesis
  proof (cases "a \<le> b")
    case True
    with \<open>b \<le> n\<close> show ?thesis by simp
  next
    case False
    then show ?thesis by simp
  qed
next
  case False
  then show ?thesis by simp
qed

lemma map_nth_window: "map (\<lambda>p. xs ! p) [a ..< min (length xs) b] = take (b - a) (drop a xs)"
proof -
  have "take (b - a) (drop a xs) = take (b - a) (drop a (map (\<lambda>p. xs ! p) [0 ..< length xs]))"
    by (simp only: map_nth)
  also have "\<dots> = map (\<lambda>p. xs ! p) (take (b - a) [a ..< length xs])"
    by (simp add: take_map drop_map)
  also have "\<dots> = map (\<lambda>p. xs ! p) [a ..< min (length xs) b]"
    by (simp only: take_upt_min)
  finally show ?thesis by simp
qed

lemma range_rows_window:
  assumes "0 \<le> lo"
  shows "range_rows lo hi xs = take (nat (hi + 1) - nat lo) (drop (nat lo) xs)"
  by (simp add: range_rows_def filter_window[OF assms] map_nth_window)

lemma range_rows_negative: "hi < 0 \<Longrightarrow> range_rows lo hi xs = []"
  by (simp add: range_rows_def filter_empty_conv)

lemma page_window:
  assumes "1 \<le> page"
  shows "range_rows ((page - 1) * 10) ((page - 1) * 10 + 10 - 1) xs
         = take 10 (drop (10 * nat (page - 1)) xs)"
proof -
  have lo: "nat ((page - 1) * 10) = 10 * nat (page - 1)"
    using assms by (simp add: nat_mult_distrib)
  have hi: "nat ((page - 1) * 10 + 10 - 1 + 1) = 10 * nat (page - 1) + 10"
    using assms by (simp add: nat_add_distrib nat_mult_distrib)
  have "range_rows ((page - 1) * 10) ((page - 1) * 10 + 10 - 1) xs
      = take (nat ((page - 1) * 10 + 10 - 1 + 1) - nat ((page - 1) * 10))
          (drop (nat ((page - 1) * 10)) xs)"
    by (rule range_rows_window) (use assms in simp)
  then show ?thesis
    unfolding lo hi by simp
qed

lemma ceiling_tenth: "\<lceil>(of_nat n :: rat) / 10\<rceil> = (int n + 9) div 10"
proof -
  have "\<lceil>(of_nat n :: rat) / 10\<rceil> = \<lceil>(of_int (int n) :: rat) / of_int 10\<rceil>"
    by simp
  also have "\<dots> = - (- int n div 10)"
    by (rule ceiling_divide_eq_div)
  also have "\<dots> = (int n + 9) div 10"
    by presburger
  finally show ?thesis .
qed

lemma list_page_from_1:
  assumes "1 \<le> page"
  shows "list_page failure (run_range xs) page
         = Inr \<lparr>l_rows = take 10 (drop (10 * nat (page - 1)) xs), l_total = length xs,
                 l_page = page, l_totalPages = \<lceil>(of_nat (length xs) :: rat) / 10\<rceil>\<rparr>"
  using page_window[OF assms, of xs] by (simp add: list_page_def run_range_def Let_def)

text \<open>
  Below page 1 the handler's answer hangs on what the store does with a window before
  the first position: the store as modelled has no row there, the store that refuses
  such a window makes the handler fail.
\<close>

lemma list_page_below_1:
  assumes "page < 1"
  shows "list_page failure (run_range xs) page
         = Inr \<lparr>l_rows = [], l_total = length xs, l_page = page,
                 l_totalPages = \<lceil>(of_nat (length xs) :: rat) / 10\<rceil>\<rparr>"
proof -
  from assms have "(page - 1) * 10 + 10 - 1 < 0" by simp
  then have "range_rows ((page - 1) * 10) ((page - 1) * 10 + 10 - 1) xs = []"
    by (rule range_rows_negative)
  then show ?thesis
    by (simp add: list_page_def run_range_def Let_def)
qed

lemma list_page_refused:
  "list_page failure (run_range_from_0 xs) page
   = (if page < 1 then Inl (500, failure) else list_page failure (run_range xs) page)"
  by (simp add: list_page_def run_range_from_0_def Let_def)

lemma list_page_asks:
  "list_page failure query page
   = (let a = query (10 * page - 10) (10 * page - 1) in
      case f_error a of
        Some _ \<Rightarrow> Inl (500, failure)
      | None \<Rightarrow> Inr \<lparr>l_rows = f_data a, l_total = f_count a, l_page = page,
                     l_totalPages = \<lceil>(of_nat (f_count a) :: rat) / 10\<rceil>\<rparr>)"
  by (simp add: list_page_def Let_def algebra_simps split: option.split)

lemma window_start:
  assumes "(int n + 9) div 10 < page"
  shows "n \<le> 10 * nat (page - 1)"
proof -
  from assms have a: "int n \<le> 10 * (page - 1)"
    by presburger
  have "0 \<le> int n"
    by simp
  with a have b: "0 \<le> page - 1"
    by arith
  then have "int (10 * nat (page - 1)) = 10 * (page - 1)"
    by simp
  with a have "int n \<le> int (10 * nat (page - 1))"
    by simp
  then show ?thesis
    by (simp only: of_nat_le_iff)
qed

lemma beyond_last_page:
  assumes "\<lceil>(of_nat (length xs) :: rat) / 10\<rceil> < page"
  shows "take 10 (drop (10 * nat (page - 1)) xs) = []"
proof -
  from assms have "(int (length xs) + 9) div 10 < page"
    by (simp only: ceiling_tenth)
  then have "length xs \<le> 10 * nat (page - 1)"
    by (rule window_start)
  then show ?thesis by simp
qed

lemma ceiling_examples: "\<lceil>(5 / 2 :: rat)\<rceil> = 3" "\<lceil>(1 / 10 :: rat)\<rceil> = 1"
  by code_simp+

text \<open>
  Claim C4 (with \<open>N\<close> matching rows, \<open>totalPages\<close> is \<open>ceil(N / 10)\<close>, the page size is 10,
  pages count from 1, and a page beyond the last returns zero rows, not an error, with
  the total still \<open>N\<close>; for \<open>N = 25\<close> there are 3 pages and page 4 is empty with total
  25). For every page from 1 on, each of the three listings answers with the window of
  ten rows that starts after the \<open>10 \<times> (page - 1)\<close> rows before it, the count of all
  matching rows and the ceiling of a tenth of that count; past the last page the window
  is empty.
\<close>

theorem listing_pages:
  assumes "1 \<le> page"
  shows "get_students ss page
           = Inr \<lparr>l_rows = take 10 (drop (10 * nat (page - 1)) ss), l_total = length ss,
                   l_page = page, l_totalPages = \<lceil>(of_nat (length ss) :: rat) / 10\<rceil>\<rparr>
       \<and> get_courses cs page
           = Inr \<lparr>l_rows = take 10 (drop (10 * nat (page - 1)) cs), l_total = length cs,
                   l_page = page, l_totalPages = \<lceil>(of_nat (length cs) :: rat) / 10\<rceil>\<rparr>
       \<and> get_enrollments es page
           = Inr \<lparr>l_rows = map flatten (take 10 (drop (10 * nat (page - 1)) es)),
                   l_total = length es, l_page = page,
                   l_totalPages = \<lceil>(of_nat (length es) :: rat) / 10\<rceil>\<rparr>
       \<and> (\<lceil>(of_nat (length xs) :: rat) / 10\<rceil> < page
            \<longrightarrow> take 10 (drop (10 * nat (page - 1)) xs) = [])"
proof -
  have "\<lceil>(of_nat (length xs) :: rat) / 10\<rceil> < page
        \<longrightarrow> take 10 (drop (10 * nat (page - 1)) xs) = []"
    using beyond_last_page by blast
  then show ?thesis
    by (simp only: get_students_def get_courses_def get_enrollments_def list_students_def
        list_courses_def list_enrollments_def list_page_from_1[OF assms]) simp
qed

theorem listing_pages_witness:
  "get_courses (replicate 25 \<lparr>c_id = 7, c_code = js ''CS101'', c_name = js ''Programming'',
       c_credits = 3, c_department = js ''Computer Science'', c_user_id = js ''u1'',
       c_created_at = js ''2024-01-01''\<rparr>) 4
   = Inr \<lparr>l_rows = [], l_total = 25, l_page = 4, l_totalPages = 3\<rparr>"
  using listing_pages[of 4 "[]" "replicate 25 \<lparr>c_id = 7, c_code = js ''CS101'',
       c_name = js ''Programming'', c_credits = 3, c_department = js ''Computer Science'',
       c_user_id = js ''u1'', c_created_at = js ''2024-01-01''\<rparr>" "[]" "[]"]
  by (simp add: ceiling_examples)

text \<open>
  Claim C9 (a page below 1 is treated as page 1: same rows, same total). The handlers
  compute \<open>offset = (Number(page) - 1) * pageSize\<close> from the page as it comes: for page 0
  they ask for the positions \<open>-10 \<dots> -1\<close>, not for the first ten. The store that refuses
  that window makes the request fail with status 500, and the store as modelled has no
  row there, while page 1 returns the first rows on both.
\<close>

theorem page_zero_is_not_page_one:
  "list_courses (run_range_from_0 [\<lparr>c_id = 7, c_code = js ''CS101'', c_name = js ''Programming'',
       c_credits = 3, c_department = js ''Computer Science'', c_user_id = js ''u1'',
       c_created_at = js ''2024-01-01''\<rparr>]) 0
   = Inl (500, js ''Failed to fetch courses.'')
   \<and> list_courses (run_range_from_0 [\<lparr>c_id = 7, c_code = js ''CS101'', c_name = js ''Programming'',
       c_credits = 3, c_department = js ''Computer Science'', c_user_id = js ''u1'',
       c_created_at = js ''2024-01-01''\<rparr>]) 1
   = Inr \<lparr>l_rows = [\<lparr>c_id = 7, c_code = js ''CS101'', c_name = js ''Programming'',
       c_credits = 3, c_department = js ''Computer Science'', c_user_id = js ''u1'',
       c_created_at = js ''2024-01-01''\<rparr>], l_total = 1, l_page = 1, l_totalPages = 1\<rparr>
   \<and> get_courses [\<lparr>c_id = 7, c_code = js ''CS101'', c_name = js ''Programming'',
       c_credits = 3, c_department = js ''Computer Science'', c_user_id = js ''u1'',
       c_created_at = js ''2024-01-01''\<rparr>] 0
   = Inr \<lparr>l_rows = [], l_total = 1, l_page = 0, l_totalPages = 1\<rparr>
   \<and> get_courses [\<lparr>c_id = 7, c_code = js ''CS101'', c_name = js ''Programming'',
       c_credits = 3, c_department = js ''Computer Science'', c_user_id = js ''u1'',
       c_created_at = js ''2024-01-01''\<rparr>] 1
   = Inr \<lparr>l_rows = [\<lparr>c_id = 7, c_code = js ''CS101'', c_name = js ''Programming'',
       c_credits = 3, c_department = js ''Computer Science'', c_user_id = js ''u1'',
       c_created_at = js ''2024-01-01''\<rparr>], l_total = 1, l_page = 1, l_totalPages = 1\<rparr>"
  by (simp add: get_courses_def list_courses_def list_page_refused list_page_below_1
      list_page_from_1 ceiling_examples)

text \<open>
  Claim C9 as amended: the handlers do not treat a page below 1 as page 1. For a
  whole-number page they ask the store for the positions \<open>10 \<times> page - 10\<close> to
  \<open>10 \<times> page - 1\<close> as computed from the page sent, all of them negative when the page
  is below 1, and answer with what the store returns for that window: its rows, its count
  as total, the pages that count makes and the page as sent, or status 500 when the store
  reports an error. It is the browser client that keeps the page it asks for between 1
  and the number of pages, which it takes to be at least 1.
\<close>

theorem page_below_one_unclamped:
  assumes "page < 1"
  shows "10 * page - 1 < 0
       \<and> list_students qs page
           = (let a = qs (10 * page - 10) (10 * page - 1) in
              case f_error a of
                Some _ \<Rightarrow> Inl (500, js ''Failed to fetch students.'')
              | None \<Rightarrow> Inr \<lparr>l_rows = f_data a, l_total = f_count a, l_page = page,
                             l_totalPages = \<lceil>(of_nat (f_count a) :: rat) / 10\<rceil>\<rparr>)
       \<and> list_courses qc page
           = (let a = qc (10 * page - 10) (10 * page - 1) in
              case f_error a of
                Some _ \<Rightarrow> Inl (500, js ''Failed to fetch courses.'')
              | None \<Rightarrow> Inr \<lparr>l_rows = f_data a, l_total = f_count a, l_page = page,
                             l_totalPages = \<lceil>(of_nat (f_count a) :: rat) / 10\<rceil>\<rparr>)
       \<and> list_enrollments qe page
           = (let a = qe (10 * page - 10) (10 * page - 1) in
              case f_error a of
                Some _ \<Rightarrow> Inl (500, js ''Failed to fetch enrollments.'')
              | None \<Rightarrow> Inr \<lparr>l_rows = map flatten (f_data a), l_total = f_count a, l_page = page,
                             l_totalPages = \<lceil>(of_nat (f_count a) :: rat) / 10\<rceil>\<rparr>)
       \<and> (0 \<le> reported \<longrightarrow> 1 \<le> totalPages (loaded reported p))
       \<and> (1 \<le> totalPages p
            \<longrightarrow> 1 \<le> currentPage (changePage delta p)
                \<and> currentPage (changePage delta p) \<le> totalPages p)"
proof -
  from assms have "10 * page - 1 < 0"
    by simp
  moreover have "list_enrollments qe page
           = (let a = qe (10 * page - 10) (10 * page - 1) in
              case f_error a of
                Some _ \<Rightarrow> Inl (500, js ''Failed to fetch enrollments.'')
              | None \<Rightarrow> Inr \<lparr>l_rows = map flatten (f_data a), l_total = f_count a, l_page = page,
                             l_totalPages = \<lceil>(of_nat (f_count a) :: rat) / 10\<rceil>\<rparr>)"
    by (simp add: list_enrollments_def list_page_asks Let_def split: option.split)
  moreover have "1 \<le> totalPages p
        \<longrightarrow> 1 \<le> currentPage (changePage delta p)
            \<and> currentPage (changePage delta p) \<le> totalPages p"
    by (simp add: changePage_def Let_def)
  moreover have "0 \<le> reported \<longrightarrow> 1 \<le> totalPages (loaded reported p)"
    by (simp add: loaded_def)
  ultimately show ?thesis
    by (simp only: list_students_def list_courses_def list_page_asks)
qed

theorem page_below_one_witness:
  "list_courses (run_range_from_0 (replicate 25 \<lparr>c_id = 7, c_code = js ''CS101'',
       c_name = js ''Programming'', c_credits = 3, c_department = js ''Computer Science'',
       c_user_id = js ''u1'', c_created_at = js ''2024-01-01''\<rparr>)) 0
   = Inl (500, js ''Failed to fetch courses.'')
   \<and> list_students (run_range []) 0
   = Inr \<lparr>l_rows = [], l_total = 0, l_page = 0, l_totalPages = 0\<rparr>
   \<and> totalPages (loaded 0 \<lparr>currentPage = 1, totalPages = 3\<rparr>) = 1
   \<and> currentPage (changePage (- 1) \<lparr>currentPage = 1, totalPages = 3\<rparr>) = 1"
  using page_below_one_unclamped[of 0 "run_range []"
       "run_range_from_0 (replicate 25 \<lparr>c_id = 7, c_code = js ''CS101'',
       c_name = js ''Programming'', c_credits = 3, c_department = js ''Computer Science'',
       c_user_id = js ''u1'', c_created_at = js ''2024-01-01''\<rparr>)" "run_range []"
       0 "\<lparr>currentPage = 1, totalPages = 3\<rparr>" "- 1"]
  by (simp add: run_range_from_0_def run_range_def range_rows_def changePage_def loaded_def)
section \<open>Properties of updates and of creating an enrollment\<close>

lemma duplicate_in_message: "js_includes (error_message UniqueViolation) (js ''duplicate'')"
  by (simp add: error_message_def js_def quote_def)

lemma list_all2_update_where:
  assumes "\<And>r. P r r" and "\<And>r. target r \<Longrightarrow> P r (f r)"
  shows "list_all2 P xs (update_where target f xs)"
  using assms by (simp add: update_where_def list_all2_map2 list_all2_same)

lemma given_not_Absent: "given m \<Longrightarrow> m \<noteq> Absent"
  by (auto simp: given_def)

lemma put_student_cases:
  "snd (put_student uid ident body db) = db
   \<or> (given (sc_name body) \<and> given (sc_email body) \<and> given (sc_course body)
      \<and> snd (put_student uid ident body db)
          = db\<lparr>tbl_students :=
                 update_where (\<lambda>s. as_bigint ident = Some (s_id s) \<and> s_user_id s = uid)
                   (\<lambda>s. s\<lparr>s_name := text_of (sc_name body), s_email := text_of (sc_email body),
                           s_course := text_of (sc_course body)\<rparr>)
                   (tbl_students db)\<rparr>)"
  by (simp add: put_student_def Let_def split: option.split)


lemma put_student_kept:
  "list_all2 (student_kept body) (tbl_students db) (tbl_students (snd (put_student uid ident body db)))
   \<and> tbl_courses (snd (put_student uid ident body db)) = tbl_courses db
   \<and> tbl_enrollments (snd (put_student uid ident body db)) = tbl_enrollments db"
  using put_student_cases[of uid ident body db]
proof (elim disjE conjE)
  assume "snd (put_student uid ident body db) = db"
  then show ?thesis
    by (simp add: list_all2_same student_kept_def)
next
  assume g: "given (sc_name body)" "given (sc_email body)" "given (sc_course body)"
    and r: "snd (put_student uid ident body db)
          = db\<lparr>tbl_students :=
                 update_where (\<lambda>s. as_bigint ident = Some (s_id s) \<and> s_user_id s = uid)
                   (\<lambda>s. s\<lparr>s_name := text_of (sc_name body), s_email := text_of (sc_email body),
                           s_course := text_of (sc_course body)\<rparr>)
                   (tbl_students db)\<rparr>"
  from g have "sc_name body \<noteq> Absent" "sc_email body \<noteq> Absent" "sc_course body \<noteq> Absent"
    by (simp_all add: given_not_Absent)
  then have "list_all2 (student_kept body) (tbl_students db)
       (update_where (\<lambda>s. as_bigint ident = Some (s_id s) \<and> s_user_id s = uid)
          (\<lambda>s. s\<lparr>s_name := text_of (sc_name body), s_email := text_of (sc_email body),
                  s_course := text_of (sc_course body)\<rparr>)
          (tbl_students db))"
    by (intro list_all2_update_where) (simp_all add: student_kept_def)
  with r show ?thesis
    by simp
qed

lemma put_course_cases:
  "snd (put_course uid ident body db) = db
   \<or> (given (cc_code body) \<and> given (cc_name body) \<and> nm_truthy (cc_credits body)
      \<and> given (cc_department body)
      \<and> (\<exists>n. snd (put_course uid ident body db)
          = db\<lparr>tbl_courses :=
                 update_where (\<lambda>c. as_bigint ident = Some (c_id c) \<and> c_user_id c = uid)
                   (\<lambda>c. c\<lparr>c_code := text_of (cc_code body), c_name := text_of (cc_name body),
                           c_credits := n, c_department := text_of (cc_department body)\<rparr>)
                   (tbl_courses db)\<rparr>))"
  by (auto simp add: put_course_def Let_def split: option.split)

lemma put_course_kept:
  "list_all2 (course_kept body) (tbl_courses db) (tbl_courses (snd (put_course uid ident body db)))
   \<and> tbl_students (snd (put_course uid ident body db)) = tbl_students db
   \<and> tbl_enrollments (snd (put_course uid ident body db)) = tbl_enrollments db"
  using put_course_cases[of uid ident body db]
proof (elim disjE conjE exE)
  assume "snd (put_course uid ident body db) = db"
  then show ?thesis
    by (simp add: list_all2_same course_kept_def)
next
  fix n
  assume g: "given (cc_code body)" "given (cc_name body)" "nm_truthy (cc_credits body)"
      "given (cc_department body)"
    and r: "snd (put_course uid ident body db)
          = db\<lparr>tbl_courses :=
                 update_where (\<lambda>c. as_bigint ident = Some (c_id c) \<and> c_user_id c = uid)
                   (\<lambda>c. c\<lparr>c_code := text_of (cc_code body), c_name := text_of (cc_name body),
                           c_credits := n, c_department := text_of (cc_department body)\<rparr>)
                   (tbl_courses db)\<rparr>"
  from g have "cc_code body \<noteq> Absent" "cc_name body \<noteq> Absent" "cc_department body \<noteq> Absent"
    by (simp_all add: given_not_Absent)
  with g(3) have "list_all2 (course_kept body) (tbl_courses db)
       (update_where (\<lambda>c. as_bigint ident = Some (c_id c) \<and> c_user_id c = uid)
          (\<lambda>c. c\<lparr>c_code := text_of (cc_code body), c_name := text_of (cc_name body),
                  c_credits := n, c_department := text_of (cc_department body)\<rparr>)
          (tbl_courses db))"
    by (intro list_all2_update_where) (simp_all add: course_kept_def)
  with r show ?thesis
    by simp
qed


lemma apply_updates_kept: "enrollment_kept body e (apply_updates (build_updates body) e)"
  by (simp add: enrollment_kept_def apply_updates_def build_updates_def given_def)

lemma put_enrollment_cases:
  "snd (put_enrollment uid ident body db) = db
   \<or> (fst (put_enrollment uid ident body db) = Reply 200 (js ''Enrollment updated successfully!'')
      \<and> snd (put_enrollment uid ident body db)
          = db\<lparr>tbl_enrollments :=
                 update_where (\<lambda>e. as_bigint ident = Some (e_id e) \<and> e_user_id e = uid)
                   (apply_updates (build_updates body)) (tbl_enrollments db)\<rparr>)"
  by (simp add: put_enrollment_def update_enrollments_def Let_def split: option.split)

lemma put_enrollment_kept:
  "list_all2 (enrollment_kept body) (tbl_enrollments db)
     (tbl_enrollments (snd (put_enrollment uid ident body db)))
   \<and> tbl_students (snd (put_enrollment uid ident body db)) = tbl_students db
   \<and> tbl_courses (snd (put_enrollment uid ident body db)) = tbl_courses db"
  using put_enrollment_cases[of uid ident body db]
proof (elim disjE conjE)
  assume "snd (put_enrollment uid ident body db) = db"
  then show ?thesis
    by (simp add: list_all2_same enrollment_kept_def)
next
  assume r: "snd (put_enrollment uid ident body db)
          = db\<lparr>tbl_enrollments :=
                 update_where (\<lambda>e. as_bigint ident = Some (e_id e) \<and> e_user_id e = uid)
                   (apply_updates (build_updates body)) (tbl_enrollments db)\<rparr>"
  have "list_all2 (enrollment_kept body) (tbl_enrollments db)
       (update_where (\<lambda>e. as_bigint ident = Some (e_id e) \<and> e_user_id e = uid)
          (apply_updates (build_updates body)) (tbl_enrollments db))"
    by (intro list_all2_update_where) (simp add: enrollment_kept_def, rule apply_updates_kept)
  with r show ?thesis
    by simp
qed


lemma put_enrollment_clears_grade:
  assumes "ec_grade body = JNull \<or> ec_grade body = JText []"
    and "fst (put_enrollment uid ident body db) = Reply 200 (js ''Enrollment updated successfully!'')"
  shows "list_all (\<lambda>e. as_bigint ident = Some (e_id e) \<and> e_user_id e = uid \<longrightarrow> e_grade e = None)
           (tbl_enrollments (snd (put_enrollment uid ident body db)))"
proof -
  have distinct_replies:
    "Reply 404 (js ''Enrollment not found.'') \<noteq> Reply 200 (js ''Enrollment updated successfully!'')"
    "Reply 500 (js ''Failed to update enrollment.'') \<noteq> Reply 200 (js ''Enrollment updated successfully!'')"
    by simp_all
  from assms(1) have u: "up_grade (build_updates body) = Some None"
    by (auto simp add: build_updates_def given_def)
  have r: "snd (put_enrollment uid ident body db)
          = db\<lparr>tbl_enrollments :=
                 update_where (\<lambda>e. as_bigint ident = Some (e_id e) \<and> e_user_id e = uid)
                   (apply_updates (build_updates body)) (tbl_enrollments db)\<rparr>"
    using assms(2) distinct_replies
    by (simp add: put_enrollment_def update_enrollments_def Let_def split: option.splits if_splits)
  have each: "as_bigint ident = Some (e_id x) \<and> e_user_id x = uid
        \<longrightarrow> e_grade x = None"
    if "x = (if as_bigint ident = Some (e_id e) \<and> e_user_id e = uid
             then apply_updates (build_updates body) e else e)" for x e
    using that u by (auto simp add: apply_updates_def split: if_splits)
  have "list_all (\<lambda>e. as_bigint ident = Some (e_id e) \<and> e_user_id e = uid \<longrightarrow> e_grade e = None)
          (update_where (\<lambda>e. as_bigint ident = Some (e_id e) \<and> e_user_id e = uid)
             (apply_updates (build_updates body)) (tbl_enrollments db))"
    unfolding update_where_def list_all_iff
  proof
    fix x
    assume "x \<in> set (map (\<lambda>r. if as_bigint ident = Some (e_id r) \<and> e_user_id r = uid
                                then apply_updates (build_updates body) r else r)
                        (tbl_enrollments db))"
    then obtain e where "x = (if as_bigint ident = Some (e_id e) \<and> e_user_id e = uid
                              then apply_updates (build_updates body) e else e)"
      by (auto simp only: set_map)
    then show "as_bigint ident = Some (e_id x) \<and> e_user_id x = uid \<longrightarrow> e_grade x = None"
      by (rule each)
  qed
  then show ?thesis
    by (simp only: r) simp
qed


lemma as_bigint_small:
  "as_bigint (Num 1) = Some 1" "as_bigint (Num 2) = Some 2" "as_bigint (Num 5) = Some 5"
  by code_simp+

text \<open>
  Claim C5 (an update changes only the fields the request supplies and every omitted
  field keeps its value, but for the grade of an enrollment, where a supplied empty value
  is stored as "no grade"). For each of the three update handlers, every row of the table
  after the request stands where it stood and keeps its id, its owner, its timestamp and
  every field the request omits, and the other tables are as they were; a request on an
  enrollment that supplies null or the empty string as grade and succeeds leaves the
  addressed enrollment without grade. (The student and course handlers refuse a request
  that omits a field, so there nothing changes at all.)
\<close>

theorem update_keeps_omitted_fields:
  "list_all2 (student_kept sb) (tbl_students db) (tbl_students (snd (put_student uid ident sb db)))
   \<and> tbl_courses (snd (put_student uid ident sb db)) = tbl_courses db
   \<and> tbl_enrollments (snd (put_student uid ident sb db)) = tbl_enrollments db
   \<and> list_all2 (course_kept cb) (tbl_courses db) (tbl_courses (snd (put_course uid ident cb db)))
   \<and> tbl_students (snd (put_course uid ident cb db)) = tbl_students db
   \<and> tbl_enrollments (snd (put_course uid ident cb db)) = tbl_enrollments db
   \<and> list_all2 (enrollment_kept eb) (tbl_enrollments db)
        (tbl_enrollments (snd (put_enrollment uid ident eb db)))
   \<and> tbl_students (snd (put_enrollment uid ident eb db)) = tbl_students db
   \<and> tbl_courses (snd (put_enrollment uid ident eb db)) = tbl_courses db
   \<and> ((ec_grade eb = JNull \<or> ec_grade eb = JText [])
        \<and> fst (put_enrollment uid ident eb db) = Reply 200 (js ''Enrollment updated successfully!'')
      \<longrightarrow> list_all (\<lambda>e. as_bigint ident = Some (e_id e) \<and> e_user_id e = uid \<longrightarrow> e_grade e = None)
            (tbl_enrollments (snd (put_enrollment uid ident eb db))))"
  using put_student_kept[of sb db uid ident] put_course_kept[of cb db uid ident]
    put_enrollment_kept[of eb db uid ident] put_enrollment_clears_grade[of eb uid ident db]
  by blast

theorem update_keeps_omitted_fields_witness:
  "put_enrollment (js ''u1'') (Num 5)
     \<lparr>ec_grade = JText [], ec_status = Absent, ec_semester = Absent\<rparr> example_store
   = (Reply 200 (js ''Enrollment updated successfully!''),
      example_store\<lparr>tbl_enrollments := [example_enrollment\<lparr>e_grade := None\<rparr>]\<rparr>)
   \<and> enrollment_kept \<lparr>ec_grade = JText [], ec_status = Absent, ec_semester = Absent\<rparr>
        example_enrollment (example_enrollment\<lparr>e_grade := None\<rparr>)"
  using update_keeps_omitted_fields[of
      "\<lparr>sc_name = Absent, sc_email = Absent, sc_course = Absent\<rparr>" example_store "js ''u1''"
      "Num 5"
      "\<lparr>cc_code = Absent, cc_name = Absent,
        cc_credits = \<lparr>nm_truthy = False, nm_number = NaN\<rparr>, cc_department = Absent\<rparr>"
      "\<lparr>ec_grade = JText [], ec_status = Absent, ec_semester = Absent\<rparr>"]
  by (simp add: put_enrollment_def example_store_def example_enrollment_def find_single_def
      as_bigint_small update_enrollments_def update_where_def build_updates_def apply_updates_def
      given_def triple_def Let_def enrollment_kept_def)

text \<open>
  Claim C6 (creating an enrollment whose student, course and semester are those of an
  existing enrollment fails with the "already enrolled" error, not with the generic
  failure, and the existing record is unaffected). For a request that supplies the three
  required members, with ids that are integers: when some stored enrollment has the same
  triple, the store refuses the insert for the \<open>UNIQUE\<close> constraint, the handler finds
  \<open>duplicate\<close> in the message and answers 400 with the "already enrolled" text, and the
  store is as it was. The constraint does not name the owner, so the existing enrollment
  may be any tenant's.
\<close>

theorem duplicate_enrollment_rejected:
  assumes "nm_truthy (er_student_id body)" and "nm_truthy (er_course_id body)"
    and "given (er_semester body)"
    and "as_bigint (nm_number (er_student_id body)) = Some (e_student_id e)"
    and "as_bigint (nm_number (er_course_id body)) = Some (e_course_id e)"
    and "text_of (er_semester body) = e_semester e"
    and "e \<in> set (tbl_enrollments db)"
  shows "post_enrollment uid fresh now body db
         = (Reply 400 (js ''Student is already enrolled in this course for this semester.''), db)"
proof -
  have "\<exists>x \<in> set (tbl_enrollments db). e_student_id x = e_student_id e
          \<and> e_course_id x = e_course_id e \<and> e_semester x = e_semester e"
    using assms(7) by blast
  then have "insert_enrollment fresh now
                \<lparr>ne_student_id = nm_number (er_student_id body),
                 ne_course_id = nm_number (er_course_id body),
                 ne_semester = text_of (er_semester body),
                 ne_grade = (if given (er_grade body) then Some (text_of (er_grade body)) else None),
                 ne_status = (if given (er_status body) then text_of (er_status body)
                              else js ''enrolled''),
                 ne_user_id = uid\<rparr> db = Inl UniqueViolation"
    using assms(4,5,6) by (simp add: insert_enrollment_def)
  then show ?thesis
    using assms(1,2,3) by (simp add: post_enrollment_def duplicate_in_message)
qed

theorem duplicate_enrollment_rejected_witness:
  "post_enrollment (js ''u1'') 6 (js ''2025-01-15'')
     \<lparr>er_student_id = \<lparr>nm_truthy = True, nm_number = Num 1\<rparr>,
      er_course_id = \<lparr>nm_truthy = True, nm_number = Num 2\<rparr>,
      er_semester = JText (js ''Fall 2024''), er_grade = Absent, er_status = Absent\<rparr>
     example_store
   = (Reply 400 (js ''Student is already enrolled in this course for this semester.''),
      example_store)"
  using duplicate_enrollment_rejected[of
     "\<lparr>er_student_id = \<lparr>nm_truthy = True, nm_number = Num 1\<rparr>,
       er_course_id = \<lparr>nm_truthy = True, nm_number = Num 2\<rparr>,
       er_semester = JText (js ''Fall 2024''), er_grade = Absent, er_status = Absent\<rparr>"
     example_enrollment example_store "js ''u1''" 6 "js ''2025-01-15''"]
  by (simp add: example_store_def example_enrollment_def as_bigint_small given_def text_of_def
      js_def)

text \<open>
  The spec's example in full: on the store without the enrollment the first request
  creates it, and the same request again is refused and leaves it as created.
\<close>

lemma create_twice:
  "post_enrollment (js ''u1'') 5 (js ''2024-09-01'')
     \<lparr>er_student_id = \<lparr>nm_truthy = True, nm_number = Num 1\<rparr>,
      er_course_id = \<lparr>nm_truthy = True, nm_number = Num 2\<rparr>,
      er_semester = JText (js ''Fall 2024''), er_grade = JText (js ''B''), er_status = Absent\<rparr>
     (example_store\<lparr>tbl_enrollments := []\<rparr>)
   = (Reply 201 (js ''Student enrolled successfully!''), example_store)"
  by (simp add: post_enrollment_def insert_enrollment_def example_store_def
      example_enrollment_def as_bigint_small given_def text_of_def)
    (simp add: js_def)

end
